theory Spec2Isabelle
  imports Complex_Main
begin

section \<open>Exceptions, values and data frames\<close>

text \<open>
  Python exceptions are values.  Every one of them is an instance of
  \<^verbatim>\<open>Exception\<close>, so an \<^verbatim>\<open>except Exception\<close> clause of the
  source catches each constructor below.
\<close>

datatype exn =
    ValueError string
  | InvalidOperationError
  | ArrowInvalid
  | ArrowTypeError
  | SchemaMismatchError
  | DeltaError
  | ReadError string
  | OSError
  | RuntimeError

text \<open>
  Python values that can sit in a cell.  \<open>PInt\<close> is an integer of 64 bits,
  \<open>PInt32\<close> one of 32 bits, \<open>PFloat\<close> a float that is a number.
\<close>

datatype pyval =
    PStr string
  | PInt int
  | PInt32 int
  | PFloat real
  | PBool bool
  | PList "pyval list"
  | PDict "(string \<times> pyval) list"

text \<open>
  The column types of polars that the readers of this program can produce, plus the
  nested ones the normalizer guards against.  The inner types of \<^verbatim>\<open>List\<close> and
  \<^verbatim>\<open>Struct\<close>, which \<^verbatim>\<open>str(dtype)\<close> prints after the name, are not
  modelled.
\<close>

datatype dtype = Utf8 | Int32 | Int64 | Float64 | Boolean | Null | List | Struct

fun dtype_str :: "dtype \<Rightarrow> string" where
  "dtype_str Utf8 = ''Utf8''"
| "dtype_str Int32 = ''Int32''"
| "dtype_str Int64 = ''Int64''"
| "dtype_str Float64 = ''Float64''"
| "dtype_str Boolean = ''Boolean''"
| "dtype_str Null = ''Null''"
| "dtype_str List = ''List''"
| "dtype_str Struct = ''Struct''"

text \<open>
  A polars series: its type fixes what the cells hold, \<open>None\<close> is a null cell.
  A float cell that is not null holds a number or NaN.  A series of type \<^verbatim>\<open>Null\<close>
  has only its length.
\<close>

datatype float64 = Finite real | NotANumber

datatype series =
    SUtf8 "string option list"
  | SInt32 "int option list"
  | SInt64 "int option list"
  | SFloat64 "float64 option list"
  | SBoolean "bool option list"
  | SNull nat
  | SList "pyval list option list"
  | SStruct "(string \<times> pyval) list option list"

fun dtype_of :: "series \<Rightarrow> dtype" where
  "dtype_of (SUtf8 _) = Utf8"
| "dtype_of (SInt32 _) = Int32"
| "dtype_of (SInt64 _) = Int64"
| "dtype_of (SFloat64 _) = Float64"
| "dtype_of (SBoolean _) = Boolean"
| "dtype_of (SNull _) = Null"
| "dtype_of (SList _) = List"
| "dtype_of (SStruct _) = Struct"

fun series_len :: "series \<Rightarrow> nat" where
  "series_len (SUtf8 xs) = length xs"
| "series_len (SInt32 xs) = length xs"
| "series_len (SInt64 xs) = length xs"
| "series_len (SFloat64 xs) = length xs"
| "series_len (SBoolean xs) = length xs"
| "series_len (SNull n) = n"
| "series_len (SList xs) = length xs"
| "series_len (SStruct xs) = length xs"

text \<open>A polars data frame: named columns in order.  A frame without columns has height 0.\<close>

type_synonym frame = "(string \<times> series) list"

fun height :: "frame \<Rightarrow> nat" where
  "height [] = 0"
| "height ((_, s) # _) = series_len s"

definition columns :: "frame \<Rightarrow> string list" where
  "columns df = map fst df"

section \<open>Paths\<close>

text \<open>
  A \<^verbatim>\<open>pathlib.Path\<close> is the list of its parts, the root first when the path is
  absolute.  \<^verbatim>\<open>name\<close> is the last part; \<^verbatim>\<open>suffix\<close> and \<^verbatim>\<open>stem\<close> split it at
  its last dot, unless that dot is the first or the last character.
\<close>

type_synonym path = "string list"

text \<open>
  The operator \<^verbatim>\<open>/\<close> with a string on the right: the string is cut at its slashes,
  empty segments and single dots are dropped, and a string that starts with a slash
  replaces the path on the left.
\<close>

fun split_on :: "char \<Rightarrow> string \<Rightarrow> string list" where
  "split_on c [] = [[]]"
| "split_on c (x # xs) =
     (if x = c then [] # split_on c xs
      else case split_on c xs of
             seg # segs \<Rightarrow> (x # seg) # segs
           | [] \<Rightarrow> [[x]])"

definition segments :: "string \<Rightarrow> string list" where
  "segments s = filter (\<lambda>seg. seg \<noteq> [] \<and> seg \<noteq> ''.'') (split_on (CHR ''/'') s)"

definition joinpath :: "path \<Rightarrow> string \<Rightarrow> path" where
  "joinpath base s =
     (if take 1 s = ''/'' then
        (if take 2 s = ''//'' \<and> take 3 s \<noteq> ''///'' then ''//'' else ''/'') # segments s
      else base @ segments s)"

definition name :: "path \<Rightarrow> string" where
  "name p =
     (case rev p of
        [] \<Rightarrow> []
      | part # _ \<Rightarrow> if part = ''/'' \<or> part = ''//'' then [] else part)"

fun rfind :: "char \<Rightarrow> string \<Rightarrow> nat option" where
  "rfind c [] = None"
| "rfind c (x # xs) =
     (case rfind c xs of
        Some i \<Rightarrow> Some (Suc i)
      | None \<Rightarrow> if x = c then Some 0 else None)"

definition suffix :: "path \<Rightarrow> string" where
  "suffix p =
     (let nm = name p in
      case rfind (CHR ''.'') nm of
        Some i \<Rightarrow> if 0 < i \<and> i < length nm - 1 then drop i nm else []
      | None \<Rightarrow> [])"

definition stem :: "path \<Rightarrow> string" where
  "stem p =
     (let nm = name p in
      case rfind (CHR ''.'') nm of
        Some i \<Rightarrow> if 0 < i \<and> i < length nm - 1 then take i nm else nm
      | None \<Rightarrow> nm)"

text \<open>\<^verbatim>\<open>str.lower\<close> on ASCII text.\<close>

definition lower_char :: "char \<Rightarrow> char" where
  "lower_char c =
     (let n = (of_char c :: nat) in if 65 \<le> n \<and> n \<le> 90 then char_of (n + 32) else c)"

definition lower :: "string \<Rightarrow> string" where
  "lower s = map lower_char s"

definition startswith :: "string \<Rightarrow> string \<Rightarrow> bool" where
  "startswith s p = (take (length p) s = p)"

section \<open>Files as the readers see them\<close>

text \<open>
  A file on disk is its path together with what each library call of the program returns
  on it: \<^verbatim>\<open>stat().st_size\<close>, \<^verbatim>\<open>pl.read_excel\<close>, the pandas Excel reader converted
  back to polars, \<^verbatim>\<open>pl.read_csv\<close> for a given separator, the pandas CSV reader
  converted back to polars, and \<^verbatim>\<open>datetime.now().isoformat()\<close> at the moment the
  file is annotated.
\<close>

record incoming_file =
  fpath :: path
  st_size :: "exn + nat"
  pl_read_excel :: "exn + frame"
  pd_read_excel :: "exn + frame"
  pl_read_csv :: "char \<Rightarrow> exn + frame"
  pd_read_csv :: "exn + frame"
  now_iso :: string

section \<open>Tabular reader\<close>

definition read_excel :: "incoming_file \<Rightarrow> exn + frame" where
  "read_excel f =
     (case pl_read_excel f of
        Inr df \<Rightarrow> Inr df
      | Inl e \<Rightarrow> pd_read_excel f)"

text \<open>The loop of \<^verbatim>\<open>_read_csv\<close> over the candidate separators.\<close>

fun try_separators :: "(char \<Rightarrow> exn + frame) \<Rightarrow> char list \<Rightarrow> frame option" where
  "try_separators rd [] = None"
| "try_separators rd (sep # seps) =
     (case rd sep of
        Inr df \<Rightarrow> if height df > 0 then Some df else try_separators rd seps
      | Inl e \<Rightarrow> try_separators rd seps)"

definition separators :: "char list" where
  "separators = [CHR '','', CHR '';'', CHR 0x09, CHR ''|'']"

definition read_csv :: "incoming_file \<Rightarrow> exn + frame" where
  "read_csv f =
     (case try_separators (pl_read_csv f) separators of
        Some df \<Rightarrow> Inr df
      | None \<Rightarrow> pd_read_csv f)"

section \<open>The pandas round trip\<close>

text \<open>
  A cell of a pandas column: a value, \<^verbatim>\<open>None\<close> (missing, in an object column) or
  \<^verbatim>\<open>NaN\<close> (missing, in a float column).  A pandas frame is a list of named columns;
  the type of a column is what its cells are.
\<close>

datatype pdcell = Val pyval | PNone | NaN

type_synonym pd_frame = "(string \<times> pdcell list) list"

text \<open>
  What the installed libraries do beyond the structure of the data is a parameter of the
  model:
  \<^item> how polars prints a value when a column is cast to \<^verbatim>\<open>Utf8\<close>, and what Python's
    \<^verbatim>\<open>str\<close> returns for a value;
  \<^item> whether this version of polars casts a nested column to \<^verbatim>\<open>Utf8\<close> or raises;
  \<^item> whether \<^verbatim>\<open>astype(str)\<close> of this version of pandas leaves a missing cell
    missing or prints it;
  \<^item> to how many rows polars broadcasts a literal on a frame without columns, given the
    number of rows the table had when it was read;
  \<^item> the type the storage engine writes for a column without any value, if it writes one;
  \<^item> the cast of the storage engine: the cells of a column cast to the type the table
    has for it, or nothing when they cannot be cast.
\<close>

record lib =
  pl_fmt :: "pyval \<Rightarrow> string"
  py_str :: "pyval \<Rightarrow> string"
  casts_nested :: bool
  astype_str_keeps_missing :: bool
  lit_rows_without_columns :: "nat \<Rightarrow> nat"
  valueless_column_type :: "dtype option"
  engine_cast :: "dtype \<Rightarrow> pdcell list \<Rightarrow> pdcell list option"

fun isna :: "pdcell \<Rightarrow> bool" where
  "isna (Val _) = False"
| "isna PNone = True"
| "isna NaN = True"

definition obj_cell :: "('a \<Rightarrow> pyval) \<Rightarrow> 'a option \<Rightarrow> pdcell" where
  "obj_cell mk c = (case c of None \<Rightarrow> PNone | Some x \<Rightarrow> Val (mk x))"

definition num_cell :: "('a \<Rightarrow> pyval) \<Rightarrow> 'a option \<Rightarrow> pdcell" where
  "num_cell mk c = (case c of None \<Rightarrow> NaN | Some x \<Rightarrow> Val (mk x))"

definition float_cell :: "float64 option \<Rightarrow> pdcell" where
  "float_cell c =
     (case c of
        None \<Rightarrow> NaN
      | Some NotANumber \<Rightarrow> NaN
      | Some (Finite x) \<Rightarrow> Val (PFloat x))"

text \<open>
  \<^verbatim>\<open>Series.to_pandas\<close>: strings, booleans with nulls, nulls and nested values become
  object columns with \<^verbatim>\<open>None\<close> for null; an integer column with a null becomes a
  float column with \<^verbatim>\<open>NaN\<close> for null; in a float column null and NaN both
  become \<^verbatim>\<open>NaN\<close>.
\<close>

fun series_to_pandas :: "series \<Rightarrow> pdcell list" where
  "series_to_pandas (SUtf8 xs) = map (obj_cell PStr) xs"
| "series_to_pandas (SInt32 xs) =
     (if None \<in> set xs then map (num_cell (\<lambda>i. PFloat (of_int i))) xs
      else map (num_cell PInt32) xs)"
| "series_to_pandas (SInt64 xs) =
     (if None \<in> set xs then map (num_cell (\<lambda>i. PFloat (of_int i))) xs
      else map (num_cell PInt) xs)"
| "series_to_pandas (SFloat64 xs) = map float_cell xs"
| "series_to_pandas (SBoolean xs) = map (obj_cell PBool) xs"
| "series_to_pandas (SNull n) = replicate n PNone"
| "series_to_pandas (SList xs) = map (obj_cell PList) xs"
| "series_to_pandas (SStruct xs) = map (obj_cell PDict) xs"

definition to_pandas :: "frame \<Rightarrow> pd_frame" where
  "to_pandas df = map (\<lambda>(col, s). (col, series_to_pandas s)) df"

text \<open>\<^verbatim>\<open>dropna(axis=1, how='all')\<close> keeps a column when some cell of it is not missing.\<close>

definition dropna_all :: "pd_frame \<Rightarrow> pd_frame" where
  "dropna_all pdf = filter (\<lambda>(col, cells). list_ex (\<lambda>c. \<not> isna c) cells) pdf"

definition fill_cell :: "pyval \<Rightarrow> pdcell \<Rightarrow> pdcell" where
  "fill_cell v c = (if isna c then Val v else c)"

definition fillna :: "pyval \<Rightarrow> pd_frame \<Rightarrow> pd_frame" where
  "fillna v pdf = map (\<lambda>(col, cells). (col, map (fill_cell v) cells)) pdf"

text \<open>
  \<^verbatim>\<open>astype(str)\<close> applies \<^verbatim>\<open>str\<close> to every value.  A missing cell is printed
  as well (\<^verbatim>\<open>'None'\<close>, \<^verbatim>\<open>'nan'\<close>), or stays missing, as the version of pandas
  has it.
\<close>

fun str_cell :: "lib \<Rightarrow> pdcell \<Rightarrow> pdcell" where
  "str_cell L (Val (PStr s)) = Val (PStr s)"
| "str_cell L (Val v) = Val (PStr (py_str L v))"
| "str_cell L PNone = (if astype_str_keeps_missing L then NaN else Val (PStr ''None''))"
| "str_cell L NaN = (if astype_str_keeps_missing L then NaN else Val (PStr ''nan''))"

definition astype_str :: "lib \<Rightarrow> pdcell list \<Rightarrow> pdcell list" where
  "astype_str L cells = map (str_cell L) cells"

text \<open>
  \<^verbatim>\<open>pl.from_pandas\<close>, column by column: the first cell that is not missing decides
  the type, every other cell must be missing or of that type, and pyarrow raises
  otherwise.  A column with no value at all comes back as a string column of nulls.
\<close>

fun first_non_none :: "pdcell list \<Rightarrow> pyval option" where
  "first_non_none [] = None"
| "first_non_none (Val v # cs) = Some v"
| "first_non_none (c # cs) = first_non_none cs"

fun collect :: "(pyval \<Rightarrow> 'a option) \<Rightarrow> pdcell list \<Rightarrow> 'a option list option" where
  "collect get [] = Some []"
| "collect get (Val v # cs) =
     (case get v of
        None \<Rightarrow> None
      | Some a \<Rightarrow> map_option ((#) (Some a)) (collect get cs))"
| "collect get (c # cs) = map_option ((#) None) (collect get cs)"

fun as_str :: "pyval \<Rightarrow> string option" where
  "as_str (PStr s) = Some s"
| "as_str _ = None"

fun as_int :: "pyval \<Rightarrow> int option" where
  "as_int (PInt i) = Some i"
| "as_int _ = None"

fun as_int32 :: "pyval \<Rightarrow> int option" where
  "as_int32 (PInt32 i) = Some i"
| "as_int32 _ = None"

fun as_float :: "pyval \<Rightarrow> real option" where
  "as_float (PFloat x) = Some x"
| "as_float _ = None"

fun as_bool :: "pyval \<Rightarrow> bool option" where
  "as_bool (PBool b) = Some b"
| "as_bool _ = None"

fun as_list :: "pyval \<Rightarrow> pyval list option" where
  "as_list (PList vs) = Some vs"
| "as_list _ = None"

fun as_dict :: "pyval \<Rightarrow> (string \<times> pyval) list option" where
  "as_dict (PDict kvs) = Some kvs"
| "as_dict _ = None"

definition typed :: "exn \<Rightarrow> ('a option list \<Rightarrow> series) \<Rightarrow> 'a option list option \<Rightarrow> exn + series" where
  "typed e mk r = (case r of None \<Rightarrow> Inl e | Some xs \<Rightarrow> Inr (mk xs))"

definition pandas_series_to_arrow :: "pdcell list \<Rightarrow> exn + series" where
  "pandas_series_to_arrow cells =
     (case first_non_none cells of
        None \<Rightarrow> Inr (SUtf8 (map (\<lambda>c. None) cells))
      | Some (PStr s) \<Rightarrow> typed ArrowTypeError SUtf8 (collect as_str cells)
      | Some (PInt i) \<Rightarrow> typed ArrowInvalid SInt64 (collect as_int cells)
      | Some (PInt32 i) \<Rightarrow> typed ArrowInvalid SInt32 (collect as_int32 cells)
      | Some (PFloat x) \<Rightarrow>
          typed ArrowInvalid (\<lambda>xs. SFloat64 (map (map_option Finite) xs)) (collect as_float cells)
      | Some (PBool b) \<Rightarrow> typed ArrowInvalid SBoolean (collect as_bool cells)
      | Some (PList vs) \<Rightarrow> typed ArrowInvalid SList (collect as_list cells)
      | Some (PDict kvs) \<Rightarrow> typed ArrowInvalid SStruct (collect as_dict cells))"

fun from_pandas :: "pd_frame \<Rightarrow> exn + frame" where
  "from_pandas [] = Inr []"
| "from_pandas ((col, cells) # rest) =
     (case pandas_series_to_arrow cells of
        Inl e \<Rightarrow> Inl e
      | Inr s \<Rightarrow> (case from_pandas rest of
                   Inl e \<Rightarrow> Inl e
                 | Inr df \<Rightarrow> Inr ((col, s) # df)))"

section \<open>Schema normalizer\<close>

text \<open>
  The loop that builds \<^verbatim>\<open>cast_dict\<close>.  Every entry of the dictionary maps to
  \<^verbatim>\<open>pl.Utf8\<close>, so the model keeps the keys.
\<close>

fun cast_dict :: "frame \<Rightarrow> string list" where
  "cast_dict [] = []"
| "cast_dict ((col, s) # rest) =
     (if dtype_of s = Null then col # cast_dict rest
      else if startswith (dtype_str (dtype_of s)) ''List''
            \<or> startswith (dtype_str (dtype_of s)) ''Struct'' then col # cast_dict rest
      else cast_dict rest)"

text \<open>
  Casting one series to \<^verbatim>\<open>Utf8\<close>.  Nulls stay null; a nested value is printed, or
  the cast raises where the library does not cast nested columns.
\<close>

fun cast_utf8 :: "lib \<Rightarrow> series \<Rightarrow> exn + series" where
  "cast_utf8 L (SUtf8 xs) = Inr (SUtf8 xs)"
| "cast_utf8 L (SInt32 xs) = Inr (SUtf8 (map (map_option (\<lambda>i. pl_fmt L (PInt32 i))) xs))"
| "cast_utf8 L (SInt64 xs) = Inr (SUtf8 (map (map_option (\<lambda>i. pl_fmt L (PInt i))) xs))"
| "cast_utf8 L (SFloat64 xs) =
     Inr (SUtf8 (map (map_option (\<lambda>v. case v of Finite x \<Rightarrow> pl_fmt L (PFloat x)
                                           | NotANumber \<Rightarrow> ''NaN'')) xs))"
| "cast_utf8 L (SBoolean xs) = Inr (SUtf8 (map (map_option (\<lambda>b. pl_fmt L (PBool b))) xs))"
| "cast_utf8 L (SNull n) = Inr (SUtf8 (replicate n None))"
| "cast_utf8 L (SList xs) =
     (if casts_nested L then Inr (SUtf8 (map (map_option (\<lambda>vs. pl_fmt L (PList vs))) xs))
      else Inl InvalidOperationError)"
| "cast_utf8 L (SStruct xs) =
     (if casts_nested L then Inr (SUtf8 (map (map_option (\<lambda>kvs. pl_fmt L (PDict kvs))) xs))
      else Inl InvalidOperationError)"

fun cast :: "lib \<Rightarrow> string list \<Rightarrow> frame \<Rightarrow> exn + frame" where
  "cast L cols [] = Inr []"
| "cast L cols ((col, s) # rest) =
     (case (if col \<in> set cols then cast_utf8 L s else Inr s) of
        Inl e \<Rightarrow> Inl e
      | Inr s' \<Rightarrow> (case cast L cols rest of
                    Inl e \<Rightarrow> Inl e
                  | Inr df \<Rightarrow> Inr ((col, s') # df)))"

text \<open>
  The last resort of \<^verbatim>\<open>_clean_null_columns\<close>: every column through
  \<^verbatim>\<open>astype(str).fillna('')\<close>, then back to polars.
\<close>

definition last_resort :: "lib \<Rightarrow> frame \<Rightarrow> exn + frame" where
  "last_resort L df =
     from_pandas
       (map (\<lambda>(col, cells). (col, map (fill_cell (PStr [])) (astype_str L cells)))
          (to_pandas df))"

text \<open>
  The body of the \<^verbatim>\<open>try\<close> after the cast: to pandas, drop the columns that are
  empty in every row, fill what is missing with the empty string, back to polars.
\<close>

definition primary_pass :: "frame \<Rightarrow> exn + frame" where
  "primary_pass df = from_pandas (fillna (PStr []) (dropna_all (to_pandas df)))"

text \<open>
  \<^verbatim>\<open>_clean_null_columns\<close>: the cast of the columns of \<^verbatim>\<open>cast_dict\<close>, when there
  are any, then the pass through pandas.  The \<^verbatim>\<open>except\<close> branch sees \<^verbatim>\<open>df\<close> as
  it was bound when the exception was raised: the input when the cast raised, the cast
  frame afterwards.
\<close>

definition coerce :: "lib \<Rightarrow> frame \<Rightarrow> exn + frame" where
  "coerce L df = (if cast_dict df \<noteq> [] then cast L (cast_dict df) df else Inr df)"

definition clean_null_columns :: "lib \<Rightarrow> frame \<Rightarrow> exn + frame" where
  "clean_null_columns L df =
     (case coerce L df of
        Inl e \<Rightarrow> last_resort L df
      | Inr df1 \<Rightarrow>
          (case primary_pass df1 of
             Inr df_clean \<Rightarrow> Inr df_clean
           | Inl e \<Rightarrow> last_resort L df1))"

section \<open>Metadata annotator\<close>

text \<open>
  \<^verbatim>\<open>with_columns\<close>: a new column replaces the column of the same name where it
  stands, and is appended when there is none.
\<close>

fun with_column :: "frame \<Rightarrow> string \<times> series \<Rightarrow> frame" where
  "with_column df (col, s) =
     (if col \<in> set (columns df) then map (\<lambda>(c, t). if c = col then (c, s) else (c, t)) df
      else df @ [(col, s)])"

definition with_columns :: "frame \<Rightarrow> (string \<times> series) list \<Rightarrow> frame" where
  "with_columns df cols = foldl with_column df cols"

text \<open>
  \<^verbatim>\<open>pl.lit\<close> is broadcast to the height of the frame; on a frame without columns the
  library decides.  A literal string is a \<^verbatim>\<open>Utf8\<close> column, a literal integer an
  \<^verbatim>\<open>Int32\<close> column when it fits 32 bits and an \<^verbatim>\<open>Int64\<close> column otherwise.
\<close>

definition lit_rows :: "lib \<Rightarrow> frame \<Rightarrow> nat \<Rightarrow> nat" where
  "lit_rows L df rows_read =
     (if df = [] then lit_rows_without_columns L rows_read else height df)"

definition lit_str :: "nat \<Rightarrow> string \<Rightarrow> series" where
  "lit_str n v = SUtf8 (replicate n (Some v))"

definition lit_int :: "nat \<Rightarrow> int \<Rightarrow> series" where
  "lit_int n v =
     (if - (2 ^ 31) \<le> v \<and> v < 2 ^ 31 then SInt32 (replicate n (Some v))
      else SInt64 (replicate n (Some v)))"

definition add_metadata :: "lib \<Rightarrow> incoming_file \<Rightarrow> frame \<Rightarrow> string \<Rightarrow> exn + frame" where
  "add_metadata L f df cluster =
     (case clean_null_columns L df of
        Inl e \<Rightarrow> Inl e
      | Inr df_clean \<Rightarrow>
          (case st_size f of
             Inl e \<Rightarrow> Inl e
           | Inr size_bytes \<Rightarrow>
               (let n = lit_rows L df_clean (height df)
                in Inr (with_columns df_clean
                     [(''_source_file'', lit_str n (name (fpath f))),
                      (''_cluster'', lit_str n cluster),
                      (''_ingested_at'', lit_str n (now_iso f)),
                      (''_file_size_bytes'', lit_int n (int size_bytes)),
                      (''_row_count'', lit_int n (int (height df)))]))))"

section \<open>Bronze table writer\<close>

text \<open>
  The storage engine.  A location of the file system is absent (\<open>None\<close>), a directory
  without a table (\<open>Some None\<close>) or a Delta table: its schema and the data of its
  commits.
\<close>

record delta_table =
  schema :: "(string \<times> dtype) list"
  commits :: "pd_frame list"

type_synonym filesystem = "path \<Rightarrow> delta_table option option"

text \<open>
  The schema that is written for a pandas frame: the arrow type of each column.  A column
  of mixed values has none (pyarrow raises); for a column without any value the library
  decides; a frame without columns is refused.
\<close>

definition column_type :: "lib \<Rightarrow> pdcell list \<Rightarrow> exn + dtype" where
  "column_type L cells =
     (if first_non_none cells = None then
        (case valueless_column_type L of None \<Rightarrow> Inl DeltaError | Some t \<Rightarrow> Inr t)
      else case pandas_series_to_arrow cells of
             Inl e \<Rightarrow> Inl e
           | Inr s \<Rightarrow> Inr (dtype_of s))"

fun column_types :: "lib \<Rightarrow> pd_frame \<Rightarrow> exn + (string \<times> dtype) list" where
  "column_types L [] = Inr []"
| "column_types L ((col, cells) # rest) =
     (case column_type L cells of
        Inl e \<Rightarrow> Inl e
      | Inr t \<Rightarrow> (case column_types L rest of
                   Inl e \<Rightarrow> Inl e
                 | Inr sch \<Rightarrow> Inr ((col, t) # sch)))"

definition delta_schema :: "lib \<Rightarrow> pd_frame \<Rightarrow> exn + (string \<times> dtype) list" where
  "delta_schema L data = (if data = [] then Inl DeltaError else column_types L data)"

text \<open>
  Schema merge on append.  A column whose name the table does not have is added to the
  schema, after the columns the table has.  A column whose name the table has with the same
  type is written as it is; with another type, the engine casts its cells to the type of
  the table, and the write fails when they cannot be cast.
\<close>

definition merged_schema ::
  "(string \<times> dtype) list \<Rightarrow> (string \<times> dtype) list \<Rightarrow> (string \<times> dtype) list" where
  "merged_schema old sch = old @ filter (\<lambda>(col, t). map_of old col = None) sch"

definition conform_column ::
  "lib \<Rightarrow> (string \<times> dtype) list \<Rightarrow> string \<Rightarrow> dtype \<Rightarrow> pdcell list \<Rightarrow> exn + pdcell list" where
  "conform_column L old col t cells =
     (case map_of old col of
        None \<Rightarrow> Inr cells
      | Some t' \<Rightarrow>
          if t' = t then Inr cells
          else case engine_cast L t' cells of
                 None \<Rightarrow> Inl DeltaError
               | Some cells' \<Rightarrow> Inr cells')"

fun conform ::
  "lib \<Rightarrow> (string \<times> dtype) list \<Rightarrow> ((string \<times> dtype) \<times> (string \<times> pdcell list)) list
   \<Rightarrow> exn + pd_frame" where
  "conform L old [] = Inr []"
| "conform L old (((col, t), (_, cells)) # rest) =
     (case conform_column L old col t cells of
        Inl e \<Rightarrow> Inl e
      | Inr cells' \<Rightarrow> (case conform L old rest of
                        Inl e \<Rightarrow> Inl e
                      | Inr data \<Rightarrow> Inr ((col, cells') # data)))"

text \<open>
  The two calls of \<^verbatim>\<open>write_deltalake\<close> that the program makes:
  \<^verbatim>\<open>mode="overwrite"\<close>, and \<^verbatim>\<open>mode="append"\<close> with \<^verbatim>\<open>schema_mode="merge"\<close>.
\<close>

datatype write_mode = Overwrite | AppendMerge

definition write_deltalake ::
  "lib \<Rightarrow> path \<Rightarrow> pd_frame \<Rightarrow> write_mode \<Rightarrow> filesystem \<Rightarrow> exn + filesystem" where
  "write_deltalake L p data mode disk =
     (case delta_schema L data of
        Inl e \<Rightarrow> Inl e
      | Inr sch \<Rightarrow>
          (case disk p of
             Some (Some t) \<Rightarrow>
               (case mode of
                  Overwrite \<Rightarrow>
                    if schema t = sch
                    then Inr (disk(p := Some (Some \<lparr>schema = sch, commits = [data]\<rparr>)))
                    else Inl SchemaMismatchError
                | AppendMerge \<Rightarrow>
                    (case conform L (schema t) (zip sch data) of
                       Inl e \<Rightarrow> Inl e
                     | Inr data' \<Rightarrow>
                         Inr (disk(p := Some (Some \<lparr>schema = merged_schema (schema t) sch,
                                                    commits = commits t @ [data']\<rparr>)))))
           | _ \<Rightarrow> Inr (disk(p := Some (Some \<lparr>schema = sch, commits = [data]\<rparr>)))))"

text \<open>
  The configured directories, from the project root (\<^verbatim>\<open>PROJECT_ROOT\<close>) the program
  is installed in.
\<close>

definition BRONZE_PATH :: "path \<Rightarrow> path" where
  "BRONZE_PATH project_root = project_root @ [''dados'', ''bronze'']"

definition LANDING_ZONE :: "path \<Rightarrow> path" where
  "LANDING_ZONE project_root = butlast project_root @ [''Landing_zone'']"

definition table_path :: "path \<Rightarrow> string \<Rightarrow> path" where
  "table_path project_root cluster = joinpath (BRONZE_PATH project_root) (cluster @ ''_bronze'')"

text \<open>
  \<^verbatim>\<open>_save_to_bronze\<close> returns the exception it re-raises, if any, and the file system
  as it leaves it: the directory made before a failed first write stays.
\<close>

definition save_to_bronze ::
  "lib \<Rightarrow> path \<Rightarrow> frame \<Rightarrow> string \<Rightarrow> string \<Rightarrow> filesystem \<Rightarrow> exn option \<times> filesystem" where
  "save_to_bronze L project_root df cluster file_stem disk =
     (let tp = table_path project_root cluster;
          pandas_df = to_pandas df
      in if disk tp \<noteq> None then
           (case write_deltalake L tp pandas_df AppendMerge disk of
              Inl e \<Rightarrow> (Some e, disk)
            | Inr disk' \<Rightarrow> (None, disk'))
         else
           (let disk1 = disk(tp := Some None)
            in case write_deltalake L tp pandas_df Overwrite disk1 of
                 Inl e \<Rightarrow> (Some e, disk1)
               | Inr disk' \<Rightarrow> (None, disk')))"

section \<open>Processing one file\<close>

text \<open>
  The world the pipeline acts on: the log and the file system under the bronze directory.
  The log keeps the level and the text of the records that \<^verbatim>\<open>process_file\<close>,
  \<^verbatim>\<open>_read_file\<close> and the watcher emit, in ASCII and without the text of the
  exception; the informational records inside the readers, the normalizer and the writer
  change no result and are left out.
\<close>

datatype level = INFO | WARNING | ERROR

record world =
  logs :: "(level \<times> string) list"
  fs :: filesystem

definition log :: "level \<Rightarrow> string \<Rightarrow> world \<Rightarrow> world" where
  "log lv msg w = w\<lparr>logs := logs w @ [(lv, msg)]\<rparr>"

definition supported_formats :: "(string \<times> (incoming_file \<Rightarrow> exn + frame)) list" where
  "supported_formats = [(''.xlsx'', read_excel), (''.xls'', read_excel), (''.csv'', read_csv)]"

definition read_file :: "incoming_file \<Rightarrow> world \<Rightarrow> (exn + frame option) \<times> world" where
  "read_file f w =
     (let extension = lower (suffix (fpath f))
      in case map_of supported_formats extension of
           None \<Rightarrow> (Inl (ValueError (''Formato nao suportado: '' @ extension)), w)
         | Some reader \<Rightarrow>
             (case reader f of
                Inr df \<Rightarrow> (Inr (Some df), w)
              | Inl e \<Rightarrow> (Inr None, log ERROR (''Erro ao ler '' @ name (fpath f)) w)))"

definition process_file ::
  "lib \<Rightarrow> path \<Rightarrow> incoming_file \<Rightarrow> string \<Rightarrow> world \<Rightarrow> exn option \<times> world" where
  "process_file L project_root f cluster w =
     (let nm = name (fpath f);
          failed = (\<lambda>e w'. (Some e, log ERROR (''Erro ao processar '' @ nm) w'));
          skipped = (\<lambda>w'. (None, log WARNING (''Arquivo vazio ou invalido: '' @ nm) w'));
          (r, w1) = read_file f (log INFO (''Lendo arquivo: '' @ nm) w)
      in case r of
           Inl e \<Rightarrow> failed e w1
         | Inr None \<Rightarrow> skipped w1
         | Inr (Some df) \<Rightarrow>
             if height df = 0 then skipped w1
             else
               (case add_metadata L f df cluster of
                  Inl e \<Rightarrow> failed e w1
                | Inr df_with_metadata \<Rightarrow>
                    (case save_to_bronze L project_root df_with_metadata cluster (stem (fpath f))
                            (fs w1) of
                       (Some e, fs') \<Rightarrow> failed e (w1\<lparr>fs := fs'\<rparr>)
                     | (None, fs') \<Rightarrow>
                         (None, log INFO (''Arquivo salvo no Bronze: '' @ nm) (w1\<lparr>fs := fs'\<rparr>)))))"

section \<open>Cluster watcher\<close>

text \<open>
  The handler, the observer and the event loop in one state: whether the observer thread
  runs, the set \<^verbatim>\<open>processing_files\<close>, the tasks made by \<^verbatim>\<open>asyncio.create_task\<close>
  that have not finished yet, and the world.  \<^verbatim>\<open>str(file_path)\<close> identifies a path,
  so the set holds the paths themselves.
\<close>

record event =
  is_directory :: bool
  src_path :: path

record sys =
  observer_alive :: bool
  processing_files :: "path set"
  tasks :: "(path \<times> string) list"
  world :: world

definition supported_extensions :: "string set" where
  "supported_extensions = {''.xlsx'', ''.xls'', ''.csv''}"

definition relative_to :: "path \<Rightarrow> path \<Rightarrow> exn + path" where
  "relative_to p base =
     (if take (length base) p = base then Inr (drop (length base) p)
      else Inl (ValueError ''not in the subpath''))"

definition detect_cluster :: "path \<Rightarrow> path \<Rightarrow> string" where
  "detect_cluster project_root file_path =
     (case relative_to file_path (LANDING_ZONE project_root @ [''data'', ''raw'']) of
        Inr relative_path \<Rightarrow> (case relative_path of [] \<Rightarrow> ''unknown'' | part # _ \<Rightarrow> part)
      | Inl e \<Rightarrow> ''unknown'')"

text \<open>
  \<^verbatim>\<open>on_created\<close>.  Its last statement is \<^verbatim>\<open>asyncio.create_task\<close>, which makes the
  task when the calling thread runs an event loop and raises \<^verbatim>\<open>RuntimeError\<close> when
  it runs none; by then the path is in \<^verbatim>\<open>processing_files\<close>.  The first argument
  says whether the calling thread runs an event loop.  The observer that \<^verbatim>\<open>start\<close>
  schedules the handler on calls it from the observer thread, which runs none.
\<close>

definition on_created :: "bool \<Rightarrow> path \<Rightarrow> event \<Rightarrow> sys \<Rightarrow> exn option \<times> sys" where
  "on_created loop_running project_root ev s =
     (if is_directory ev then (None, s)
      else
        let file_path = src_path ev
        in if lower (suffix file_path) \<notin> supported_extensions then
             (None,
              s\<lparr>world := log INFO (''Arquivo ignorado (formato nao suportado): '' @ name file_path)
                            (world s)\<rparr>)
           else if file_path \<in> processing_files s then (None, s)
           else
             let cluster = detect_cluster project_root file_path;
                 s1 = s\<lparr>processing_files := insert file_path (processing_files s),
                        world := log INFO (''Novo arquivo detectado: '' @ name file_path) (world s)\<rparr>
             in if loop_running then (None, s1\<lparr>tasks := tasks s @ [(file_path, cluster)]\<rparr>)
                else (Some RuntimeError, s1))"

text \<open>
  The body of a task, from the end of its settle delay to its end.  Nothing in it yields
  to the event loop, so it is one step.
\<close>

definition process_file_async :: "lib \<Rightarrow> path \<Rightarrow> incoming_file \<Rightarrow> string \<Rightarrow> sys \<Rightarrow> sys" where
  "process_file_async L project_root f cluster s =
     (let nm = name (fpath f);
          (r, w1) = process_file L project_root f cluster
                      (log INFO (''Iniciando processamento: '' @ nm) (world s));
          w2 = (case r of
                  None \<Rightarrow> log INFO (''Processamento concluido: '' @ nm) w1
                | Some e \<Rightarrow> log ERROR (''Erro ao processar '' @ nm) w1)
      in s\<lparr>world := w2, processing_files := processing_files s - {fpath f}\<rparr>)"

definition stop :: "sys \<Rightarrow> sys" where
  "stop s =
     s\<lparr>observer_alive := False,
       world := log INFO ''File System Watcher parado!''
                  (log INFO ''Parando File System Watcher...'' (world s))\<rparr>"

text \<open>
  What can happen to a started watcher: a create event reaches the handler, from a thread
  that runs an event loop or from one that runs none; the event loop runs the task of a
  path to its end (the file being what the readers find by then); or \<^verbatim>\<open>stop\<close> is
  called.  An exception of the handler goes to the thread that called it; the state is as
  the handler left it.
\<close>

datatype action = Created bool event | RunTask incoming_file | Stop

fun step :: "lib \<Rightarrow> path \<Rightarrow> sys \<Rightarrow> action \<Rightarrow> sys" where
  "step L project_root s (Created loop_running ev) =
     (if observer_alive s then snd (on_created loop_running project_root ev s) else s)"
| "step L project_root s (RunTask f) =
     (case find (\<lambda>t. fst t = fpath f) (tasks s) of
        None \<Rightarrow> s
      | Some (p, cluster) \<Rightarrow>
          (process_file_async L project_root f cluster s)\<lparr>tasks := remove1 (p, cluster) (tasks s)\<rparr>)"
| "step L project_root s Stop = stop s"

definition started :: "world \<Rightarrow> sys" where
  "started w = \<lparr>observer_alive = True, processing_files = {}, tasks = [], world = w\<rparr>"

section \<open>Backlog scan\<close>

text \<open>
  A cluster directory is absent or lists its entries, each a file record and whether
  \<^verbatim>\<open>is_file()\<close> holds for it.
\<close>

definition clusters :: "string list" where
  "clusters = [''diabetes'', ''emagrecimento'', ''rejuvenescimento'', ''relacionamento'',
               ''renda_extra'']"

fun scan_dir ::
  "lib \<Rightarrow> path \<Rightarrow> string \<Rightarrow> (incoming_file \<times> bool) list \<Rightarrow> world \<times> nat \<Rightarrow> world \<times> nat" where
  "scan_dir L project_root cluster [] acc = acc"
| "scan_dir L project_root cluster ((f, is_file) # rest) (w, processed_count) =
     (if is_file \<and> lower (suffix (fpath f)) \<in> {''.xlsx'', ''.xls'', ''.csv''} then
        (case process_file L project_root f cluster
                (log INFO (''Processando existente: '' @ name (fpath f)) w) of
           (None, w') \<Rightarrow> scan_dir L project_root cluster rest (w', processed_count + 1)
         | (Some e, w') \<Rightarrow>
             scan_dir L project_root cluster rest
               (log ERROR (''Erro ao processar '' @ name (fpath f)) w', processed_count))
      else scan_dir L project_root cluster rest (w, processed_count))"

fun scan_clusters ::
  "lib \<Rightarrow> path \<Rightarrow> (string \<Rightarrow> (incoming_file \<times> bool) list option) \<Rightarrow> string list
   \<Rightarrow> world \<times> nat \<Rightarrow> world \<times> nat" where
  "scan_clusters L project_root listing [] acc = acc"
| "scan_clusters L project_root listing (cluster # rest) acc =
     (case listing cluster of
        None \<Rightarrow> scan_clusters L project_root listing rest acc
      | Some entries \<Rightarrow>
          scan_clusters L project_root listing rest (scan_dir L project_root cluster entries acc))"

definition scan_existing_files ::
  "lib \<Rightarrow> path \<Rightarrow> (string \<Rightarrow> (incoming_file \<times> bool) list option) \<Rightarrow> world \<Rightarrow> world \<times> nat" where
  "scan_existing_files L project_root listing w =
     (let (w', processed_count) =
            scan_clusters L project_root listing clusters
              (log INFO ''Escaneando arquivos existentes na Landing Zone...'' w, 0)
      in (log INFO ''Scan concluido!'' w', processed_count))"

section \<open>Notions of the specification\<close>

text \<open>The column types that must not reach the writer.\<close>

definition null_or_nested :: "dtype \<Rightarrow> bool" where
  "null_or_nested t = (t = Null \<or> t = List \<or> t = Struct)"

text \<open>A series is empty in all rows when every cell of it is null.\<close>

fun is_null :: "series \<Rightarrow> bool list" where
  "is_null (SUtf8 xs) = map (\<lambda>c. c = None) xs"
| "is_null (SInt32 xs) = map (\<lambda>c. c = None) xs"
| "is_null (SInt64 xs) = map (\<lambda>c. c = None) xs"
| "is_null (SFloat64 xs) = map (\<lambda>c. c = None) xs"
| "is_null (SBoolean xs) = map (\<lambda>c. c = None) xs"
| "is_null (SNull n) = replicate n True"
| "is_null (SList xs) = map (\<lambda>c. c = None) xs"
| "is_null (SStruct xs) = map (\<lambda>c. c = None) xs"

definition empty_in_all_rows :: "series \<Rightarrow> bool" where
  "empty_in_all_rows s = list_all (\<lambda>b. b) (is_null s)"

definition empty_in_some_row :: "series \<Rightarrow> bool" where
  "empty_in_some_row s = list_ex (\<lambda>b. b) (is_null s)"

text \<open>The cells that the pandas round trip can bring back as a scalar column.\<close>

fun scalar_cell :: "pdcell \<Rightarrow> bool" where
  "scalar_cell (Val (PList _)) = False"
| "scalar_cell (Val (PDict _)) = False"
| "scalar_cell _ = True"

text \<open>
  The text of a cell after \<^verbatim>\<open>astype(str).fillna('')\<close>: the printed value; for a
  missing cell its printed form, or the empty string where \<^verbatim>\<open>astype(str)\<close> leaves it
  missing.
\<close>

fun str_text :: "lib \<Rightarrow> pdcell \<Rightarrow> string" where
  "str_text L (Val (PStr s)) = s"
| "str_text L (Val v) = py_str L v"
| "str_text L PNone = (if astype_str_keeps_missing L then [] else ''None'')"
| "str_text L NaN = (if astype_str_keeps_missing L then [] else ''nan'')"

text \<open>
  The five audit columns for a table of \<open>n\<close> rows: each holds one value in every row;
  the integers are of 32 bits when the value fits and of 64 bits otherwise.
\<close>

definition reserved_names :: "string list" where
  "reserved_names =
     [''_source_file'', ''_cluster'', ''_ingested_at'', ''_file_size_bytes'', ''_row_count'']"

definition audit_columns ::
  "nat \<Rightarrow> string \<Rightarrow> string \<Rightarrow> string \<Rightarrow> nat \<Rightarrow> nat \<Rightarrow> (string \<times> series) list" where
  "audit_columns n file_name cluster ingested_at size_bytes row_count =
     [(''_source_file'', SUtf8 (replicate n (Some file_name))),
      (''_cluster'', SUtf8 (replicate n (Some cluster))),
      (''_ingested_at'', SUtf8 (replicate n (Some ingested_at))),
      (''_file_size_bytes'',
         if size_bytes < 2 ^ 31 then SInt32 (replicate n (Some (int size_bytes)))
         else SInt64 (replicate n (Some (int size_bytes)))),
      (''_row_count'',
         if row_count < 2 ^ 31 then SInt32 (replicate n (Some (int row_count)))
         else SInt64 (replicate n (Some (int row_count))))]"

section \<open>Example inputs\<close>

text \<open>
  A library instance to run the model on examples.  It prints strings and booleans as
  Python does, and the examples hold no other value to print.  It behaves as pandas 2 and
  the polars of its time: a missing cell is printed by \<^verbatim>\<open>astype(str)\<close>, a literal on a
  frame without columns has one row, a column without any value is refused by the engine.
  The engine casts a column of decimal numerals to \<^verbatim>\<open>Int64\<close> and nothing else.
\<close>

fun sample_str :: "pyval \<Rightarrow> string" where
  "sample_str (PStr s) = s"
| "sample_str (PBool b) = (if b then ''True'' else ''False'')"
| "sample_str _ = ''?''"

definition digit :: "char \<Rightarrow> nat option" where
  "digit c =
     (let n = (of_char c :: nat) in if 48 \<le> n \<and> n \<le> 57 then Some (n - 48) else None)"

fun numeral :: "nat \<Rightarrow> string \<Rightarrow> nat option" where
  "numeral acc [] = Some acc"
| "numeral acc (c # cs) =
     (case digit c of
        None \<Rightarrow> None
      | Some d \<Rightarrow> numeral (10 * acc + d) cs)"

fun int_of_cell :: "pdcell \<Rightarrow> pdcell option" where
  "int_of_cell (Val (PStr s)) =
     (if s = [] then None else map_option (\<lambda>n. Val (PInt (int n))) (numeral 0 s))"
| "int_of_cell (Val (PInt i)) = Some (Val (PInt i))"
| "int_of_cell (Val (PInt32 i)) = Some (Val (PInt i))"
| "int_of_cell (Val v) = None"
| "int_of_cell c = Some c"

definition sample_cast :: "dtype \<Rightarrow> pdcell list \<Rightarrow> pdcell list option" where
  "sample_cast t cells = (if t = Int64 then those (map int_of_cell cells) else None)"

definition sample_lib :: lib where
  "sample_lib =
     \<lparr>pl_fmt = sample_str, py_str = sample_str, casts_nested = True,
      astype_str_keeps_missing = False, lit_rows_without_columns = (\<lambda>n. 1),
      valueless_column_type = None, engine_cast = sample_cast\<rparr>"

definition example_root :: path where
  "example_root = [''/'', ''srv'', ''Delta_lake'']"

text \<open>
  A file of two columns and one data row, written with semicolons and named in upper
  case.  Under the comma, the tab and the pipe it parses to one wide column, under the
  semicolon to the two columns meant.
\<close>

definition semicolon_csv :: incoming_file where
  "semicolon_csv =
     \<lparr>fpath = [''/'', ''srv'', ''Landing_zone'', ''data'', ''raw'', ''diabetes'', ''DATA.CSV''],
      st_size = Inr 12,
      pl_read_excel = Inl (ReadError ''not a workbook''),
      pd_read_excel = Inl (ReadError ''not a workbook''),
      pl_read_csv = (\<lambda>sep.
        if sep = CHR '';'' then Inr [(''a'', SUtf8 [Some ''x'']), (''b'', SUtf8 [Some ''y''])]
        else Inr [(''a;b'', SUtf8 [Some ''x;y''])]),
      pd_read_csv = Inr [(''a;b'', SUtf8 [Some ''x;y''])],
      now_iso = ''2024-05-01T10:00:00''\<rparr>"

text \<open>
  A file written with semicolons and decimal commas (header \<^verbatim>\<open>a;b|c\<close>, row
  \<^verbatim>\<open>1,5;2|3\<close>).  Under the comma the row has more fields than the header and the
  parse raises; under the semicolon and under the pipe it parses to two columns.
\<close>

definition decimal_comma_csv :: incoming_file where
  "decimal_comma_csv =
     \<lparr>fpath = [''/'', ''srv'', ''Landing_zone'', ''data'', ''raw'', ''renda_extra'', ''vendas.csv''],
      st_size = Inr 14,
      pl_read_excel = Inl (ReadError ''not a workbook''),
      pd_read_excel = Inl (ReadError ''not a workbook''),
      pl_read_csv = (\<lambda>sep.
        if sep = CHR '','' then Inl (ReadError ''found more fields than defined in the schema'')
        else if sep = CHR '';'' then Inr [(''a'', SUtf8 [Some ''1,5'']), (''b|c'', SUtf8 [Some ''2|3''])]
        else if sep = CHR ''|'' then Inr [(''a;b'', SUtf8 [Some ''1,5;2'']), (''c'', SInt64 [Some 3])]
        else Inr [(''a;b|c'', SUtf8 [Some ''1,5;2|3''])]),
      pd_read_csv = Inl (ReadError ''expected 1 fields, saw 2''),
      now_iso = ''2024-05-01T10:00:00''\<rparr>"

text \<open>A file with a header and no data row, and a workbook that no reader can open.\<close>

definition empty_csv :: incoming_file where
  "empty_csv =
     \<lparr>fpath = [''/'', ''srv'', ''Landing_zone'', ''data'', ''raw'', ''diabetes'', ''empty.csv''],
      st_size = Inr 4,
      pl_read_excel = Inl (ReadError ''not a workbook''),
      pd_read_excel = Inl (ReadError ''not a workbook''),
      pl_read_csv = (\<lambda>sep. if sep = CHR '','' then Inr [(''a'', SUtf8 []), (''b'', SUtf8 [])]
                           else Inr [(''a,b'', SUtf8 [])]),
      pd_read_csv = Inr [(''a'', SUtf8 []), (''b'', SUtf8 [])],
      now_iso = ''2024-05-01T10:00:00''\<rparr>"

definition broken_xlsx :: incoming_file where
  "broken_xlsx =
     \<lparr>fpath = [''/'', ''srv'', ''Landing_zone'', ''data'', ''raw'', ''diabetes'', ''broken.XLSX''],
      st_size = Inr 4,
      pl_read_excel = Inl (ReadError ''not a workbook''),
      pd_read_excel = Inl (ReadError ''not a workbook''),
      pl_read_csv = (\<lambda>sep. Inl (ReadError ''not text'')),
      pd_read_csv = Inl (ReadError ''not text''),
      now_iso = ''2024-05-01T10:00:00''\<rparr>"

text \<open>A text file that is not a table.\<close>

definition notes_txt :: incoming_file where
  "notes_txt =
     \<lparr>fpath = [''/'', ''srv'', ''Landing_zone'', ''data'', ''raw'', ''diabetes'', ''notes.txt''],
      st_size = Inr 4,
      pl_read_excel = Inl (ReadError ''not a workbook''),
      pd_read_excel = Inl (ReadError ''not a workbook''),
      pl_read_csv = (\<lambda>sep. Inr [(''hello'', SUtf8 [Some ''world''])]),
      pd_read_csv = Inr [(''hello'', SUtf8 [Some ''world''])],
      now_iso = ''2024-05-01T10:00:00''\<rparr>"

text \<open>A world with an empty log and nothing under the bronze directory.\<close>

definition empty_world :: world where
  "empty_world = \<lparr>logs = [], fs = (\<lambda>p. None)\<rparr>"

text \<open>The create event of the first file.\<close>

definition created_data_csv :: event where
  "created_data_csv = \<lparr>is_directory = False, src_path = fpath semicolon_csv\<rparr>"

text \<open>
  A table with a boolean column that is empty in one row beside a column that is empty in
  all rows.
\<close>

definition mixed_frame :: frame where
  "mixed_frame = [(''a'', SBoolean [Some True, None]), (''b'', SUtf8 [None, None])]"

text \<open>A table of two rows that already has a column under a reserved name.\<close>

definition reserved_frame :: frame where
  "reserved_frame =
     [(''a'', SUtf8 [Some ''x'', Some ''y'']), (''_cluster'', SUtf8 [Some ''old'', Some ''older''])]"






section \<open>Properties of the reader\<close>

lemma try_separators_first:
  assumes "rd sep = Inr df" and "0 < height df"
    and "list_all (\<lambda>s. case rd s of Inr d \<Rightarrow> height d = 0 | Inl e \<Rightarrow> True) pre"
  shows "try_separators rd (pre @ sep # post) = Some df"
  using assms by (induction pre) (auto split: sum.splits)

text \<open>
  C3.  The candidate separators are comma, semicolon, tab and pipe, in this order.  When a
  separator parses the file to at least one row, and every separator before it raised or
  gave no row, \<^verbatim>\<open>_read_csv\<close> returns the parse under that separator, whatever the
  later separators and the pandas reader would give: the first that succeeds, not the best.
\<close>

theorem read_csv_first_successful:
  assumes "separators = pre @ sep # post"
    and "pl_read_csv f sep = Inr df" and "0 < height df"
    and "list_all (\<lambda>s. case pl_read_csv f s of Inr d \<Rightarrow> height d = 0 | Inl e \<Rightarrow> True) pre"
  shows "separators = [CHR '','', CHR '';'', CHR 0x09, CHR ''|''] \<and> read_csv f = Inr df"
  using try_separators_first [OF assms(2-4)] assms(1)
  by (simp add: read_csv_def separators_def)

theorem read_csv_first_successful_witness:
  "read_csv semicolon_csv = Inr [(''a;b'', SUtf8 [Some ''x;y''])]
   \<and> read_csv decimal_comma_csv
       = Inr [(''a'', SUtf8 [Some ''1,5'']), (''b|c'', SUtf8 [Some ''2|3''])]"
proof -
  have "separators = [] @ CHR '','' # [CHR '';'', CHR 0x09, CHR ''|'']"
    by (simp add: separators_def)
  from read_csv_first_successful [OF this, of semicolon_csv]
  have "read_csv semicolon_csv = Inr [(''a;b'', SUtf8 [Some ''x;y''])]"
    by (simp add: semicolon_csv_def)
  moreover
  have "separators = [CHR '',''] @ CHR '';'' # [CHR 0x09, CHR ''|'']"
    by (simp add: separators_def)
  from read_csv_first_successful [OF this, of decimal_comma_csv]
  have "read_csv decimal_comma_csv
       = Inr [(''a'', SUtf8 [Some ''1,5'']), (''b|c'', SUtf8 [Some ''2|3''])]"
    by (simp add: decimal_comma_csv_def)
  ultimately show ?thesis by simp
qed

section \<open>Properties of the normalizer\<close>

lemma startswith_List: "startswith (dtype_str d) ''List'' \<longleftrightarrow> d = List"
  by (cases d) (simp_all add: startswith_def)

lemma startswith_Struct: "startswith (dtype_str d) ''Struct'' \<longleftrightarrow> d = Struct"
  by (cases d) (simp_all add: startswith_def)

lemma cast_dict_mem:
  "(col, s) \<in> set df \<Longrightarrow> null_or_nested (dtype_of s) \<Longrightarrow> col \<in> set (cast_dict df)"
  by (induction df) (auto simp: null_or_nested_def startswith_def)

lemma cast_utf8_flat: "cast_utf8 L s = Inr s' \<Longrightarrow> dtype_of s' = Utf8"
  by (cases s) (auto split: if_splits)

lemma cast_flat:
  "cast L cols df = Inr df1
   \<Longrightarrow> \<forall>(col, s) \<in> set df. null_or_nested (dtype_of s) \<longrightarrow> col \<in> set cols
   \<Longrightarrow> list_all (\<lambda>(col, s). \<not> null_or_nested (dtype_of s)) df1"
proof (induction df arbitrary: df1)
  case Nil
  then show ?case by simp
next
  case (Cons a df)
  obtain col s where a: "a = (col, s)" by (cases a)
  from Cons.prems(1) obtain s' df' where
    s': "(if col \<in> set cols then cast_utf8 L s else Inr s) = Inr s'"
    and df': "cast L cols df = Inr df'" and df1: "df1 = (col, s') # df'"
    unfolding a by (auto split: sum.splits)
  have "\<not> null_or_nested (dtype_of s')"
  proof (cases "col \<in> set cols")
    case True
    with s' have "dtype_of s' = Utf8" by (auto dest: cast_utf8_flat)
    then show ?thesis by (simp add: null_or_nested_def)
  next
    case False
    with s' have "s' = s" by simp
    with False Cons.prems(2) show ?thesis by (auto simp: a)
  qed
  moreover have "list_all (\<lambda>(col, s). \<not> null_or_nested (dtype_of s)) df'"
    using df' Cons.prems(2) by (intro Cons.IH) auto
  ultimately show ?case by (simp add: df1)
qed

lemma series_to_pandas_scalar:
  "\<not> null_or_nested (dtype_of s) \<Longrightarrow> list_all scalar_cell (series_to_pandas s)"
  by (cases s)
    (auto simp: null_or_nested_def list_all_iff obj_cell_def num_cell_def float_cell_def
      split: option.splits float64.splits)

lemma first_non_none_mem: "first_non_none cells = Some v \<Longrightarrow> Val v \<in> set cells"
  by (induction cells rule: first_non_none.induct) auto

lemma arrow_flat:
  assumes "pandas_series_to_arrow cells = Inr s" and "list_all scalar_cell cells"
  shows "\<not> null_or_nested (dtype_of s)"
proof (cases "first_non_none cells")
  case None
  with assms show ?thesis by (auto simp: pandas_series_to_arrow_def null_or_nested_def)
next
  case (Some v)
  then have "Val v \<in> set cells" by (rule first_non_none_mem)
  with assms(2) have "scalar_cell (Val v)" by (simp add: list_all_iff)
  with assms(1) Some show ?thesis
    by (cases v) (auto simp: pandas_series_to_arrow_def typed_def null_or_nested_def split: option.splits)
qed

lemma from_pandas_flat:
  "from_pandas pdf = Inr df \<Longrightarrow> list_all (\<lambda>(col, cells). list_all scalar_cell cells) pdf
   \<Longrightarrow> list_all (\<lambda>(col, s). \<not> null_or_nested (dtype_of s)) df"
proof (induction pdf arbitrary: df rule: from_pandas.induct)
  case 1
  then show ?case by simp
next
  case (2 col cells rest)
  then show ?case
    by (auto split: sum.splits dest: arrow_flat)
qed

lemma fill_scalar: "scalar_cell c \<Longrightarrow> scalar_cell (fill_cell (PStr t) c)"
  by (simp add: fill_cell_def)

lemma primary_pass_flat:
  assumes "primary_pass df1 = Inr out"
    and "list_all (\<lambda>(col, s). \<not> null_or_nested (dtype_of s)) df1"
  shows "list_all (\<lambda>(col, s). \<not> null_or_nested (dtype_of s)) out"
proof -
  have "list_all (\<lambda>(col, cells). list_all scalar_cell cells)
          (fillna (PStr []) (dropna_all (to_pandas df1)))"
    using assms(2)
    by (auto simp: list_all_iff fillna_def dropna_all_def to_pandas_def
        intro!: fill_scalar dest!: series_to_pandas_scalar)
  with assms(1) show ?thesis
    unfolding primary_pass_def by (rule from_pandas_flat)
qed

text \<open>String columns come back as they are.\<close>

lemma collect_strings:
  "collect as_str (map (\<lambda>c. Val (PStr (g c))) cells) = Some (map (\<lambda>c. Some (g c)) cells)"
  by (induction cells) auto

lemma arrow_strings:
  "pandas_series_to_arrow (map (\<lambda>c. Val (PStr (g c))) cells) = Inr (SUtf8 (map (\<lambda>c. Some (g c)) cells))"
  by (cases cells) (simp_all add: pandas_series_to_arrow_def typed_def collect_strings)

lemma from_pandas_strings:
  "from_pandas (map (\<lambda>(col, cells). (col, map (\<lambda>c. Val (PStr (g c))) cells)) pdf)
   = Inr (map (\<lambda>(col, cells). (col, SUtf8 (map (\<lambda>c. Some (g c)) cells))) pdf)"
  by (induction pdf) (auto simp: arrow_strings)

lemma last_resort_eq:
  "last_resort L df =
     Inr (map (\<lambda>(col, s). (col, SUtf8 (map (\<lambda>c. Some (str_text L c)) (series_to_pandas s)))) df)"
proof -
  have "fill_cell (PStr []) (str_cell L c) = Val (PStr (str_text L c))" for c
    by (induction L c rule: str_cell.induct) (simp_all add: fill_cell_def)
  then have fill_id: "map (fill_cell (PStr [])) (astype_str L cells)
      = map (\<lambda>c. Val (PStr (str_text L c))) cells" for cells
    by (simp add: astype_str_def)
  have "last_resort L df
      = from_pandas (map (\<lambda>(col, cells). (col, map (\<lambda>c. Val (PStr (str_text L c))) cells))
          (to_pandas df))"
    by (simp add: last_resort_def fill_id)
  also have "\<dots> = Inr (map (\<lambda>(col, cells). (col, SUtf8 (map (\<lambda>c. Some (str_text L c)) cells)))
          (to_pandas df))"
    by (rule from_pandas_strings)
  also have "map (\<lambda>(col, cells). (col, SUtf8 (map (\<lambda>c. Some (str_text L c)) cells))) (to_pandas df)
      = map (\<lambda>(col, s). (col, SUtf8 (map (\<lambda>c. Some (str_text L c)) (series_to_pandas s)))) df"
    by (simp add: to_pandas_def case_prod_unfold)
  finally show ?thesis .
qed

lemma last_resort_flat:
  "last_resort L df = Inr out \<Longrightarrow> list_all (\<lambda>(col, s). \<not> null_or_nested (dtype_of s)) out"
  by (auto simp: last_resort_eq list_all_iff null_or_nested_def)

lemma coerce_flat:
  assumes "coerce L df = Inr df1"
  shows "list_all (\<lambda>(col, s). \<not> null_or_nested (dtype_of s)) df1"
proof (cases "cast_dict df = []")
  case True
  with assms have "df1 = df" by (simp add: coerce_def)
  moreover have "\<not> null_or_nested (dtype_of s)" if "(col, s) \<in> set df" for col s
    using cast_dict_mem [OF that] True by auto
  ultimately show ?thesis by (auto simp: list_all_iff)
next
  case False
  with assms have "cast L (cast_dict df) df = Inr df1" by (simp add: coerce_def)
  then show ?thesis
    by (rule cast_flat) (auto dest: cast_dict_mem)
qed

text \<open>
  C1.  For every input table, with whatever library behaviour, \<^verbatim>\<open>_clean_null_columns\<close>
  returns a table (the last resort cannot fail), and no column of that table has the type
  null, list or struct.  This covers a table with an all-null column and one with a list
  or struct column.
\<close>

theorem normalizer_output_flat:
  "\<exists>out. clean_null_columns L df = Inr out
         \<and> list_all (\<lambda>(col, s). \<not> null_or_nested (dtype_of s)) out"
proof (cases "coerce L df")
  case (Inl e)
  then have "clean_null_columns L df = last_resort L df"
    by (simp add: clean_null_columns_def)
  then show ?thesis
    using last_resort_flat [of L df] by (simp add: last_resort_eq)
next
  case (Inr df1)
  note flat1 = coerce_flat [OF Inr]
  show ?thesis
  proof (cases "primary_pass df1")
    case (Inl e)
    with Inr have "clean_null_columns L df = last_resort L df1"
      by (simp add: clean_null_columns_def)
    then show ?thesis
      using last_resort_flat [of L df1] by (simp add: last_resort_eq)
  next
    case out: (Inr out)
    with Inr have "clean_null_columns L df = Inr out"
      by (simp add: clean_null_columns_def)
    with primary_pass_flat [OF out flat1] show ?thesis by simp
  qed
qed

lemma coerce_mixed_frame: "coerce L mixed_frame = Inr mixed_frame"
  by (simp add: coerce_def mixed_frame_def startswith_def)

lemma primary_pass_mixed_frame: "primary_pass mixed_frame = Inl ArrowInvalid"
  by code_simp

text \<open>
  C4 fails on the code.  In a table with a boolean column that is empty in one row and a
  string column that is empty in all rows, \<^verbatim>\<open>fillna('')\<close> puts a string beside the
  booleans, the way back to polars raises, and the last resort returns both columns as
  strings: the column that is empty in all rows is kept, and the missing values are
  printed as \<^verbatim>\<open>'None'\<close> unless \<^verbatim>\<open>astype(str)\<close> leaves them missing.  This holds with
  every library instance.
\<close>

theorem normalizer_keeps_empty_column:
  "empty_in_all_rows (SUtf8 [None, None])
   \<and> empty_in_some_row (SBoolean [Some True, None])
   \<and> \<not> empty_in_all_rows (SBoolean [Some True, None])
   \<and> clean_null_columns L mixed_frame
       = Inr [(''a'', SUtf8 [Some (py_str L (PBool True)),
                            Some (if astype_str_keeps_missing L then [] else ''None'')]),
              (''b'', SUtf8 [Some (if astype_str_keeps_missing L then [] else ''None''),
                            Some (if astype_str_keeps_missing L then [] else ''None'')])]"
proof -
  have "clean_null_columns L mixed_frame = last_resort L mixed_frame"
    by (simp add: clean_null_columns_def coerce_mixed_frame primary_pass_mixed_frame)
  then have "clean_null_columns L mixed_frame
       = Inr [(''a'', SUtf8 [Some (py_str L (PBool True)),
                            Some (if astype_str_keeps_missing L then [] else ''None'')]),
              (''b'', SUtf8 [Some (if astype_str_keeps_missing L then [] else ''None''),
                            Some (if astype_str_keeps_missing L then [] else ''None'')])]"
    by (simp add: last_resort_eq mixed_frame_def obj_cell_def)
  then show ?thesis
    by (simp add: empty_in_all_rows_def empty_in_some_row_def)
qed

section \<open>Properties of the annotator\<close>

lemma set_with_column:
  "set (with_column df (c, v)) = {x \<in> set df. fst x \<noteq> c} \<union> {(c, v)}"
proof (cases "c \<in> set (columns df)")
  case True
  then obtain b where b: "(c, b) \<in> set df" by (auto simp: columns_def)
  let ?f = "\<lambda>(ca, t). if ca = c then (ca, v) else (ca, t)"
  have "?f ` set df = {x \<in> set df. fst x \<noteq> c} \<union> {(c, v)}"
  proof (intro set_eqI iffI)
    fix x assume "x \<in> ?f ` set df"
    then show "x \<in> {x \<in> set df. fst x \<noteq> c} \<union> {(c, v)}"
      by (auto split: if_splits)
  next
    fix x assume "x \<in> {x \<in> set df. fst x \<noteq> c} \<union> {(c, v)}"
    then consider "x = (c, v)" | "x \<in> set df" "fst x \<noteq> c" by auto
    then show "x \<in> ?f ` set df"
    proof cases
      case 1
      have "?f (c, b) = (c, v)" by simp
      with b 1 show ?thesis by (metis (no_types, lifting) image_eqI)
    next
      case 2
      from 2(2) have "?f x = x" by (simp add: case_prod_unfold)
      with 2 show ?thesis by (metis (no_types, lifting) image_eqI)
    qed
  qed
  with True show ?thesis by simp
next
  case False
  then have "{x \<in> set df. fst x \<noteq> c} = set df"
    by (auto simp: columns_def image_iff)
  with False show ?thesis by simp
qed

lemma columns_with_column:
  "columns (with_column df (c, v)) = (if c \<in> set (columns df) then columns df else columns df @ [c])"
  by (auto simp: columns_def case_prod_unfold)

declare with_column.simps [simp del]

lemma set_with_columns:
  "distinct (map fst cols) \<Longrightarrow>
   set (with_columns df cols) = {x \<in> set df. fst x \<notin> fst ` set cols} \<union> set cols"
  unfolding with_columns_def
proof (induction cols arbitrary: df)
  case Nil
  then show ?case by simp
next
  case (Cons a cols)
  obtain c v where a: "a = (c, v)" by (cases a)
  from Cons.prems have d: "distinct (map fst cols)" and c: "c \<notin> fst ` set cols"
    by (auto simp: a)
  from c have c': "(c, b) \<notin> set cols" for b
    by (metis fst_conv image_eqI)
  from Cons.IH [OF d, of "with_column df (c, v)"] c c' show ?case
    unfolding a by (auto simp: set_with_column)
qed

lemma columns_with_columns:
  "distinct (map fst cols) \<Longrightarrow>
   columns (with_columns df cols)
     = columns df @ filter (\<lambda>c. c \<notin> set (columns df)) (map fst cols)"
  unfolding with_columns_def
proof (induction cols arbitrary: df)
  case Nil
  then show ?case by simp
next
  case (Cons a cols)
  obtain c v where a: "a = (c, v)" by (cases a)
  from Cons.prems have d: "distinct (map fst cols)" and c: "c \<notin> set (map fst cols)"
    by (auto simp: a)
  have "filter (\<lambda>x. x \<noteq> c \<and> x \<notin> set (columns df)) (map fst cols)
      = filter (\<lambda>x. x \<notin> set (columns df)) (map fst cols)"
    using c by (intro filter_cong) auto
  with Cons.IH [OF d, of "with_column df (c, v)"] show ?case
    unfolding a by (auto simp: columns_with_column)
qed

lemma height_with_column:
  "df \<noteq> [] \<Longrightarrow> series_len s = height df \<Longrightarrow> height (with_column df (c, s)) = height df"
  by (cases df) (auto simp: with_column.simps columns_def split: prod.splits)

lemma with_column_nonempty: "df \<noteq> [] \<Longrightarrow> with_column df (c, s) \<noteq> []"
  by (simp add: with_column.simps)

lemma height_with_columns:
  "df \<noteq> [] \<Longrightarrow> list_all (\<lambda>(c, s). series_len s = n) cols \<Longrightarrow> n = height df
   \<Longrightarrow> height (with_columns df cols) = height df"
  unfolding with_columns_def
proof (induction cols arbitrary: df)
  case Nil
  then show ?case by simp
next
  case (Cons a cols)
  obtain c s where a: "a = (c, s)" by (cases a)
  from Cons.prems have len: "series_len s = height df" by (simp add: a)
  from Cons.IH [of "with_column df (c, s)"] Cons.prems len show ?case
    by (simp add: a height_with_column with_column_nonempty)
qed

lemma lit_int_nat:
  "lit_int n (int k)
     = (if k < 2 ^ 31 then SInt32 (replicate n (Some (int k))) else SInt64 (replicate n (Some (int k))))"
proof -
  have "- (2 ^ 31) \<le> int k" by (rule order_trans [of _ 0]) simp_all
  moreover have "int k < 2 ^ 31 \<longleftrightarrow> k < 2 ^ 31"
    by (metis of_nat_less_iff of_nat_numeral of_nat_power)
  ultimately show ?thesis by (simp add: lit_int_def)
qed

text \<open>
  C5.  When \<^verbatim>\<open>_add_metadata\<close> returns, its result is the normalized table with the
  five audit columns: the columns of the normalized table in their order, followed by the
  reserved names it did not have; every column under a reserved name is the audit column,
  which has one cell for each row of the normalized table and the same value in every
  cell (source file name, cluster, timestamp, file size, row count of the table as read),
  also where the normalized table had a column of that name; every other column is the one
  of the normalized table; and the result has as many rows as the normalized table.  On a
  normalized table without columns the number of rows of the audit columns is the
  library's.
\<close>

theorem add_metadata_audit_columns:
  assumes "add_metadata L f df cluster = Inr out"
  shows "\<exists>df_clean size_bytes.
           clean_null_columns L df = Inr df_clean \<and> st_size f = Inr size_bytes \<and>
           columns out
             = columns df_clean @ filter (\<lambda>c. c \<notin> set (columns df_clean)) reserved_names \<and>
           set out
             = {x \<in> set df_clean. fst x \<notin> set reserved_names}
               \<union> set (audit_columns
                        (if df_clean = [] then lit_rows_without_columns L (height df)
                         else height df_clean)
                        (name (fpath f)) cluster (now_iso f) size_bytes (height df)) \<and>
           (if df_clean = [] then height out = lit_rows_without_columns L (height df)
            else height out = height df_clean)"
proof -
  from assms obtain df_clean size_bytes where
    clean: "clean_null_columns L df = Inr df_clean" and size: "st_size f = Inr size_bytes"
    by (auto simp: add_metadata_def split: sum.splits)
  let ?n = "if df_clean = [] then lit_rows_without_columns L (height df) else height df_clean"
  let ?cols = "audit_columns ?n (name (fpath f)) cluster (now_iso f) size_bytes (height df)"
  have n: "lit_rows L df_clean (height df) = ?n"
    by (simp add: lit_rows_def)
  have out: "out = with_columns df_clean ?cols"
    using assms clean size
    by (simp add: add_metadata_def n Let_def audit_columns_def lit_str_def lit_int_nat
        del: replicate.simps)
  have names: "map fst ?cols = reserved_names"
    by (simp add: audit_columns_def reserved_names_def)
  then have d: "distinct (map fst ?cols)"
    by (simp add: reserved_names_def)
  from names have img: "fst ` set ?cols = set reserved_names"
    by (metis set_map)
  have lens: "list_all (\<lambda>(c, s). series_len s = ?n) ?cols"
    by (simp add: audit_columns_def)
  have rows: "if df_clean = [] then height out = lit_rows_without_columns L (height df)
            else height out = height df_clean"
  proof (cases "df_clean = []")
    case True
    then show ?thesis
      by (simp add: out with_columns_def audit_columns_def with_column.simps columns_def)
  next
    case False
    with height_with_columns [OF False lens] show ?thesis by (simp add: out)
  qed
  from set_with_columns [OF d, of df_clean] columns_with_columns [OF d, of df_clean] rows
  show ?thesis
    using clean size unfolding out names img by blast
qed

theorem add_metadata_audit_columns_witness:
  "columns (projr (add_metadata sample_lib semicolon_csv reserved_frame ''diabetes''))
     = [''a'', ''_cluster'', ''_source_file'', ''_ingested_at'', ''_file_size_bytes'', ''_row_count'']
   \<and> (''_cluster'', SUtf8 [Some ''diabetes'', Some ''diabetes''])
       \<in> set (projr (add_metadata sample_lib semicolon_csv reserved_frame ''diabetes''))
   \<and> (''_row_count'', SInt32 [Some 2, Some 2])
       \<in> set (projr (add_metadata sample_lib semicolon_csv reserved_frame ''diabetes''))
   \<and> (''_cluster'', SUtf8 [Some ''old'', Some ''older''])
       \<notin> set (projr (add_metadata sample_lib semicolon_csv reserved_frame ''diabetes''))
   \<and> (''a'', SUtf8 [Some ''x'', Some ''y''])
       \<in> set (projr (add_metadata sample_lib semicolon_csv reserved_frame ''diabetes''))
   \<and> height (projr (add_metadata sample_lib semicolon_csv reserved_frame ''diabetes'')) = 2"
proof -
  define out where "out =
    [(''a'', SUtf8 [Some ''x'', Some ''y'']),
     (''_cluster'', SUtf8 [Some ''diabetes'', Some ''diabetes'']),
     (''_source_file'', SUtf8 [Some ''DATA.CSV'', Some ''DATA.CSV'']),
     (''_ingested_at'', SUtf8 [Some ''2024-05-01T10:00:00'', Some ''2024-05-01T10:00:00'']),
     (''_file_size_bytes'', SInt32 [Some 12, Some 12]),
     (''_row_count'', SInt32 [Some 2, Some 2])]"
  have "add_metadata sample_lib semicolon_csv reserved_frame ''diabetes''
     = Inr [(''a'', SUtf8 [Some ''x'', Some ''y'']),
     (''_cluster'', SUtf8 [Some ''diabetes'', Some ''diabetes'']),
     (''_source_file'', SUtf8 [Some ''DATA.CSV'', Some ''DATA.CSV'']),
     (''_ingested_at'', SUtf8 [Some ''2024-05-01T10:00:00'', Some ''2024-05-01T10:00:00'']),
     (''_file_size_bytes'', SInt32 [Some 12, Some 12]),
     (''_row_count'', SInt32 [Some 2, Some 2])]"
    by code_simp
  then have out: "add_metadata sample_lib semicolon_csv reserved_frame ''diabetes'' = Inr out"
    by (simp add: out_def)
  have clean: "clean_null_columns sample_lib reserved_frame = Inr reserved_frame"
    by code_simp
  have facts: "st_size semicolon_csv = Inr 12" "name (fpath semicolon_csv) = ''DATA.CSV''"
    "now_iso semicolon_csv = ''2024-05-01T10:00:00''" "height reserved_frame = 2"
    "reserved_frame \<noteq> []"
    by code_simp+
  from add_metadata_audit_columns [OF out] clean facts
  have "columns out = columns reserved_frame
          @ filter (\<lambda>c. c \<notin> set (columns reserved_frame)) reserved_names"
    and "set out = {x \<in> set reserved_frame. fst x \<notin> set reserved_names}
          \<union> set (audit_columns 2 ''DATA.CSV'' ''diabetes'' ''2024-05-01T10:00:00'' 12 2)"
    and "height out = 2"
    by auto
  note inst = this
  have replicate2: "replicate 2 x = [x, x]" for x :: "'a"
    by (simp add: numeral_2_eq_2)
  have "audit_columns 2 ''DATA.CSV'' ''diabetes'' ''2024-05-01T10:00:00'' 12 2
      = [(''_source_file'', SUtf8 [Some ''DATA.CSV'', Some ''DATA.CSV'']),
         (''_cluster'', SUtf8 [Some ''diabetes'', Some ''diabetes'']),
         (''_ingested_at'', SUtf8 [Some ''2024-05-01T10:00:00'', Some ''2024-05-01T10:00:00'']),
         (''_file_size_bytes'', SInt32 [Some 12, Some 12]),
         (''_row_count'', SInt32 [Some 2, Some 2])]"
    by (simp add: audit_columns_def replicate2)
  with inst show ?thesis
    unfolding out
    by (simp add: reserved_frame_def reserved_names_def columns_def)
qed

section \<open>Properties of process_file\<close>

lemma process_file_skip:
  assumes "read_file f (log INFO (''Lendo arquivo: '' @ name (fpath f)) w) = (r, w1)"
    and "r = Inr None \<or> (\<exists>df. r = Inr (Some df) \<and> height df = 0)"
  shows "process_file L project_root f cluster w
         = (None, log WARNING (''Arquivo vazio ou invalido: '' @ name (fpath f)) w1)"
  using assms by (auto simp: process_file_def Let_def)

text \<open>
  C7.  When the reader for the file's extension returns a table without rows,
  \<^verbatim>\<open>process_file\<close> returns without an exception; the world it leaves differs from
  the one it found by two log records only, the second a warning, so nothing is written to
  any bronze table.
\<close>

theorem process_file_empty_skip:
  assumes "map_of supported_formats (lower (suffix (fpath f))) = Some reader"
    and "reader f = Inr df" and "height df = 0"
  shows "process_file L project_root f cluster w
         = (None, w\<lparr>logs := logs w @ [(INFO, ''Lendo arquivo: '' @ name (fpath f)),
                                      (WARNING, ''Arquivo vazio ou invalido: '' @ name (fpath f))]\<rparr>)"
proof -
  have "read_file f (log INFO (''Lendo arquivo: '' @ name (fpath f)) w)
      = (Inr (Some df), log INFO (''Lendo arquivo: '' @ name (fpath f)) w)"
    using assms(1,2) by (simp add: read_file_def)
  from process_file_skip [OF this] assms(3) show ?thesis
    by (simp add: log_def)
qed

theorem process_file_empty_skip_witness:
  "process_file sample_lib [''srv'', ''Delta_lake''] empty_csv ''diabetes'' empty_world
   = (None, \<lparr>logs = [(INFO, ''Lendo arquivo: empty.csv''),
                     (WARNING, ''Arquivo vazio ou invalido: empty.csv'')],
             fs = (\<lambda>p. None)\<rparr>)"
proof -
  have "lower (suffix (fpath empty_csv)) = ''.csv''"
    by code_simp
  then have 1: "map_of supported_formats (lower (suffix (fpath empty_csv))) = Some read_csv"
    by (simp add: supported_formats_def)
  have 2: "read_csv empty_csv = Inr [(''a'', SUtf8 []), (''b'', SUtf8 [])]"
    by code_simp
  have 3: "name (fpath empty_csv) = ''empty.csv''"
    by code_simp
  from process_file_empty_skip [OF 1 2, of sample_lib "[''srv'', ''Delta_lake'']" "''diabetes''" empty_world]
  show ?thesis
    by (simp add: 3 empty_world_def)
qed

text \<open>
  C9.  When the reader for the file's extension raises, \<^verbatim>\<open>_read_file\<close> logs the error
  and returns \<^verbatim>\<open>None\<close>, and \<^verbatim>\<open>process_file\<close> takes the skip path: it returns
  without an exception and writes nothing.  Its return value and the file system it leaves
  are those of a run on a file whose parse has no rows; the two runs differ in the error
  record of \<^verbatim>\<open>_read_file\<close> in the log.
\<close>

theorem process_file_read_failure:
  assumes "map_of supported_formats (lower (suffix (fpath f))) = Some reader"
    and "reader f = Inl e"
    and "map_of supported_formats (lower (suffix (fpath g))) = Some reader'"
    and "reader' g = Inr df" and "height df = 0"
  shows "process_file L project_root f cluster w
         = (None, w\<lparr>logs := logs w @ [(INFO, ''Lendo arquivo: '' @ name (fpath f)),
                                      (ERROR, ''Erro ao ler '' @ name (fpath f)),
                                      (WARNING, ''Arquivo vazio ou invalido: '' @ name (fpath f))]\<rparr>)
       \<and> fst (process_file L project_root f cluster w) = fst (process_file L project_root g cluster w)
       \<and> fs (snd (process_file L project_root f cluster w))
           = fs (snd (process_file L project_root g cluster w))"
proof -
  have "read_file f (log INFO (''Lendo arquivo: '' @ name (fpath f)) w)
      = (Inr None, log ERROR (''Erro ao ler '' @ name (fpath f))
                     (log INFO (''Lendo arquivo: '' @ name (fpath f)) w))"
    using assms(1,2) by (simp add: read_file_def)
  from process_file_skip [OF this]
  have f: "process_file L project_root f cluster w
         = (None, w\<lparr>logs := logs w @ [(INFO, ''Lendo arquivo: '' @ name (fpath f)),
                                      (ERROR, ''Erro ao ler '' @ name (fpath f)),
                                      (WARNING, ''Arquivo vazio ou invalido: '' @ name (fpath f))]\<rparr>)"
    by (simp add: log_def)
  have "read_file g (log INFO (''Lendo arquivo: '' @ name (fpath g)) w)
      = (Inr (Some df), log INFO (''Lendo arquivo: '' @ name (fpath g)) w)"
    using assms(3,4) by (simp add: read_file_def)
  from process_file_skip [OF this] assms(5)
  have g: "process_file L project_root g cluster w
         = (None, w\<lparr>logs := logs w @ [(INFO, ''Lendo arquivo: '' @ name (fpath g)),
                                      (WARNING, ''Arquivo vazio ou invalido: '' @ name (fpath g))]\<rparr>)"
    by (simp add: log_def)
  show ?thesis by (simp add: f g)
qed

theorem process_file_read_failure_witness:
  "process_file sample_lib [''srv'', ''Delta_lake''] broken_xlsx ''diabetes'' empty_world
   = (None, \<lparr>logs = [(INFO, ''Lendo arquivo: broken.XLSX''),
                     (ERROR, ''Erro ao ler broken.XLSX''),
                     (WARNING, ''Arquivo vazio ou invalido: broken.XLSX'')],
             fs = (\<lambda>p. None)\<rparr>)
   \<and> fst (process_file sample_lib [''srv'', ''Delta_lake''] broken_xlsx ''diabetes'' empty_world)
     = fst (process_file sample_lib [''srv'', ''Delta_lake''] empty_csv ''diabetes'' empty_world)"
proof -
  have "lower (suffix (fpath broken_xlsx)) = ''.xlsx''"
    by code_simp
  then have 1: "map_of supported_formats (lower (suffix (fpath broken_xlsx))) = Some read_excel"
    by (simp add: supported_formats_def)
  have 2: "read_excel broken_xlsx = Inl (ReadError ''not a workbook'')"
    by code_simp
  have "lower (suffix (fpath empty_csv)) = ''.csv''"
    by code_simp
  then have 3: "map_of supported_formats (lower (suffix (fpath empty_csv))) = Some read_csv"
    by (simp add: supported_formats_def)
  have 4: "read_csv empty_csv = Inr [(''a'', SUtf8 []), (''b'', SUtf8 [])]"
    by code_simp
  have 5: "name (fpath broken_xlsx) = ''broken.XLSX''"
    by code_simp
  have 6: "height [(''a'', SUtf8 []), (''b'', SUtf8 [])] = 0"
    by simp
  note inst = process_file_read_failure [OF 1 2 3 4 6, of sample_lib "[''srv'', ''Delta_lake'']"
      "''diabetes''" empty_world]
  from inst have "process_file sample_lib [''srv'', ''Delta_lake''] broken_xlsx ''diabetes'' empty_world
      = (None, empty_world\<lparr>logs := logs empty_world @
           [(INFO, ''Lendo arquivo: '' @ name (fpath broken_xlsx)),
            (ERROR, ''Erro ao ler '' @ name (fpath broken_xlsx)),
            (WARNING, ''Arquivo vazio ou invalido: '' @ name (fpath broken_xlsx))]\<rparr>)"
    by (rule conjunct1)
  moreover from inst
  have "fst (process_file sample_lib [''srv'', ''Delta_lake''] broken_xlsx ''diabetes'' empty_world)
      = fst (process_file sample_lib [''srv'', ''Delta_lake''] empty_csv ''diabetes'' empty_world)"
    by blast
  ultimately show ?thesis
    by (simp add: 5 empty_world_def)
qed

section \<open>Properties of the writer\<close>












section \<open>Properties of the extension filter\<close>

lemma supported_formats_keys:
  "(map_of supported_formats ext \<noteq> None) \<longleftrightarrow> ext \<in> {''.xlsx'', ''.xls'', ''.csv''}"
  by (simp add: supported_formats_def)

lemma read_file_logs_grow: "length (logs w) \<le> length (logs (snd (read_file f w)))"
  by (simp add: read_file_def log_def Let_def split: option.splits sum.splits)

lemma process_file_logs_grow:
  "length (logs w) < length (logs (snd (process_file L r f cluster w)))"
proof -
  let ?w0 = "log INFO (''Lendo arquivo: '' @ name (fpath f)) w"
  obtain res w1 where rf: "read_file f ?w0 = (res, w1)"
    by (cases "read_file f ?w0")
  have "length (logs ?w0) \<le> length (logs w1)"
    using read_file_logs_grow [of ?w0 f] rf by simp
  then have w1: "length (logs w) < length (logs w1)"
    by (simp add: log_def)
  show ?thesis
    using w1 rf
    by (simp add: process_file_def Let_def log_def
        split: option.splits sum.splits prod.splits)
qed

lemma scan_dir_fold:
  "scan_dir L r cluster entries acc
     = fold (\<lambda>(f, is_file) (w, processed_count).
               case process_file L r f cluster
                      (log INFO (''Processando existente: '' @ name (fpath f)) w) of
                 (None, w') \<Rightarrow> (w', processed_count + 1)
               | (Some e, w') \<Rightarrow>
                   (log ERROR (''Erro ao processar '' @ name (fpath f)) w', processed_count))
            (filter (\<lambda>(f, is_file). is_file
                      \<and> lower (suffix (fpath f)) \<in> {''.xlsx'', ''.xls'', ''.csv''}) entries)
            acc"
proof (induction entries arbitrary: acc)
  case Nil
  show ?case by simp
next
  case (Cons x rest)
  obtain f is_file where x: "x = (f, is_file)" by (cases x)
  obtain w processed_count where acc: "acc = (w, processed_count)" by (cases acc)
  show ?case
  proof (cases "is_file \<and> lower (suffix (fpath f)) \<in> {''.xlsx'', ''.xls'', ''.csv''}")
    case False
    then have "scan_dir L r cluster (x # rest) acc = scan_dir L r cluster rest acc"
      unfolding x acc by (simp only: scan_dir.simps if_False simp_thms)
    moreover from False have "filter (\<lambda>(f, is_file). is_file
          \<and> lower (suffix (fpath f)) \<in> {''.xlsx'', ''.xls'', ''.csv''}) (x # rest)
        = filter (\<lambda>(f, is_file). is_file
          \<and> lower (suffix (fpath f)) \<in> {''.xlsx'', ''.xls'', ''.csv''}) rest"
      unfolding x by (simp only: filter.simps split_conv if_False simp_thms)
    ultimately show ?thesis
      using Cons.IH [of acc] by (simp only:)
  next
    case True
    obtain res w' where pf: "process_file L r f cluster
        (log INFO (''Processando existente: '' @ name (fpath f)) w) = (res, w')"
      by (cases "process_file L r f cluster
        (log INFO (''Processando existente: '' @ name (fpath f)) w)")
    define acc' where "acc' = (case res of None \<Rightarrow> (w', processed_count + 1)
        | Some e \<Rightarrow> (log ERROR (''Erro ao processar '' @ name (fpath f)) w', processed_count))"
    from True pf have "scan_dir L r cluster (x # rest) acc = scan_dir L r cluster rest acc'"
      unfolding x acc acc'_def by (cases res) (simp_all only: scan_dir.simps if_True split_conv option.case simp_thms)
    moreover from True have "filter (\<lambda>(f, is_file). is_file
          \<and> lower (suffix (fpath f)) \<in> {''.xlsx'', ''.xls'', ''.csv''}) (x # rest)
        = x # filter (\<lambda>(f, is_file). is_file
          \<and> lower (suffix (fpath f)) \<in> {''.xlsx'', ''.xls'', ''.csv''}) rest"
      unfolding x by (simp only: filter.simps split_conv if_True simp_thms)
    moreover have "(\<lambda>(f, is_file) (w, processed_count).
               case process_file L r f cluster
                      (log INFO (''Processando existente: '' @ name (fpath f)) w) of
                 (None, w') \<Rightarrow> (w', processed_count + 1)
               | (Some e, w') \<Rightarrow>
                   (log ERROR (''Erro ao processar '' @ name (fpath f)) w', processed_count)) x acc
        = acc'"
      unfolding x acc acc'_def using pf by (cases res) (simp_all only: split_conv option.case)
    ultimately show ?thesis
      using Cons.IH [of acc'] by (simp only: fold_simps)
  qed
qed

lemma scan_dir_rejects:
  assumes "\<not> (is_file \<and> lower (suffix (fpath f)) \<in> {''.xlsx'', ''.xls'', ''.csv''})"
  shows "scan_dir L r cluster [(f, is_file)] acc = acc"
  using assms by (cases acc) (simp only: scan_dir.simps if_False simp_thms)

lemma scan_dir_accepts:
  assumes "is_file \<and> lower (suffix (fpath f)) \<in> {''.xlsx'', ''.xls'', ''.csv''}"
  shows "length (logs w) + 2 \<le> length (logs (fst (scan_dir L r cluster [(f, is_file)] (w, n))))"
proof -
  let ?w0 = "log INFO (''Processando existente: '' @ name (fpath f)) w"
  obtain res w' where pf: "process_file L r f cluster ?w0 = (res, w')"
    by (cases "process_file L r f cluster ?w0")
  have "length (logs ?w0) < length (logs w')"
    using process_file_logs_grow [of ?w0 L r f cluster] pf by simp
  then have w': "length (logs w) + 2 \<le> length (logs w')"
    by (simp add: log_def)
  from assms pf have "scan_dir L r cluster [(f, is_file)] (w, n)
      = (case res of None \<Rightarrow> (w', n + 1)
         | Some e \<Rightarrow> (log ERROR (''Erro ao processar '' @ name (fpath f)) w', n))"
    by (cases res) (simp_all only: scan_dir.simps if_True split_conv option.case simp_thms)
  with w' show ?thesis
    by (cases res) (simp_all add: log_def)
qed

lemma scan_clusters_one:
  assumes "cluster \<in> set cs" and "distinct cs"
  shows "scan_clusters L r (\<lambda>c. if c = cluster then Some entries else None) cs acc
     = scan_dir L r cluster entries acc"
  using assms
proof (induction cs arbitrary: acc)
  case Nil
  then show ?case by simp
next
  case (Cons c cs)
  have none: "scan_clusters L r (\<lambda>c. if c = cluster then Some entries else None) ds acc' = acc'"
    if "cluster \<notin> set ds" for ds acc'
    using that by (induction ds arbitrary: acc') auto
  show ?case
  proof (cases "c = cluster")
    case True
    with Cons.prems have "cluster \<notin> set cs" by simp
    with True show ?thesis by (simp add: none)
  next
    case False
    with Cons show ?thesis by simp
  qed
qed

text \<open>
  C10.  The watcher, the backlog scan and the reader dispatch decide on the lower-cased
  suffix of the path, against the same three extensions.

  Watcher: for a create event of a file that is not in flight, \<^verbatim>\<open>on_created\<close> marks the
  path in \<^verbatim>\<open>processing_files\<close> exactly when the lower-cased suffix is one of them, and
  otherwise records that the file is ignored and does nothing else, whichever thread
  calls it; called from a thread that runs an event loop it schedules the task exactly
  then.  What the handler does after the test on a thread without an event loop is the
  matter of C2.

  Scan: \<^verbatim>\<open>scan_dir\<close> runs \<^verbatim>\<open>process_file\<close>, in order, on exactly the entries that are
  regular files with such a suffix, and the other entries leave no trace; a scan of a
  landing zone that holds one regular file leaves only its own two records in the log and
  counts nothing exactly when the suffix is none of the three.

  Reader: \<^verbatim>\<open>_read_file\<close> dispatches to a reader exactly when the suffix is one of the
  three, and raises \<^verbatim>\<open>ValueError\<close> otherwise.
\<close>

theorem extension_matching:
  assumes "\<not> is_directory ev" and "src_path ev = fpath f" and "fpath f \<notin> processing_files s"
    and "cluster \<in> set clusters"
  shows "(fpath f \<in> processing_files (snd (on_created loop_running project_root ev s))
            \<longleftrightarrow> lower (suffix (fpath f)) \<in> {''.xlsx'', ''.xls'', ''.csv''})
       \<and> (on_created loop_running project_root ev s
            = (None, s\<lparr>world := log INFO
                 (''Arquivo ignorado (formato nao suportado): '' @ name (fpath f)) (world s)\<rparr>)
            \<longleftrightarrow> lower (suffix (fpath f)) \<notin> {''.xlsx'', ''.xls'', ''.csv''})
       \<and> (tasks (snd (on_created True project_root ev s))
            = tasks s @ [(fpath f, detect_cluster project_root (fpath f))]
            \<longleftrightarrow> lower (suffix (fpath f)) \<in> {''.xlsx'', ''.xls'', ''.csv''})
       \<and> scan_dir L project_root cluster entries acc
            = fold (\<lambda>(f, is_file) (w, processed_count).
                     case process_file L project_root f cluster
                            (log INFO (''Processando existente: '' @ name (fpath f)) w) of
                       (None, w') \<Rightarrow> (w', processed_count + 1)
                     | (Some e, w') \<Rightarrow>
                         (log ERROR (''Erro ao processar '' @ name (fpath f)) w', processed_count))
                (filter (\<lambda>(f, is_file). is_file
                          \<and> lower (suffix (fpath f)) \<in> {''.xlsx'', ''.xls'', ''.csv''}) entries)
                acc
       \<and> (scan_existing_files L project_root (\<lambda>c. if c = cluster then Some [(f, True)] else None) w
            = (log INFO ''Scan concluido!''
                 (log INFO ''Escaneando arquivos existentes na Landing Zone...'' w), 0)
            \<longleftrightarrow> lower (suffix (fpath f)) \<notin> {''.xlsx'', ''.xls'', ''.csv''})
       \<and> ((\<exists>res w'. read_file f w = (Inr res, w'))
            \<longleftrightarrow> lower (suffix (fpath f)) \<in> {''.xlsx'', ''.xls'', ''.csv''})
       \<and> (read_file f w = (Inl (ValueError (''Formato nao suportado: '' @ lower (suffix (fpath f)))), w)
            \<longleftrightarrow> lower (suffix (fpath f)) \<notin> {''.xlsx'', ''.xls'', ''.csv''})"
proof (intro conjI)
  show "fpath f \<in> processing_files (snd (on_created loop_running project_root ev s))
            \<longleftrightarrow> lower (suffix (fpath f)) \<in> {''.xlsx'', ''.xls'', ''.csv''}"
    using assms(1-3) by (simp add: on_created_def supported_extensions_def Let_def)
  show "on_created loop_running project_root ev s
            = (None, s\<lparr>world := log INFO
                 (''Arquivo ignorado (formato nao suportado): '' @ name (fpath f)) (world s)\<rparr>)
            \<longleftrightarrow> lower (suffix (fpath f)) \<notin> {''.xlsx'', ''.xls'', ''.csv''}"
  proof
    assume eq: "on_created loop_running project_root ev s
            = (None, s\<lparr>world := log INFO
                 (''Arquivo ignorado (formato nao suportado): '' @ name (fpath f)) (world s)\<rparr>)"
    show "lower (suffix (fpath f)) \<notin> {''.xlsx'', ''.xls'', ''.csv''}"
    proof
      assume "lower (suffix (fpath f)) \<in> {''.xlsx'', ''.xls'', ''.csv''}"
      with assms(1-3)
      have "fpath f \<in> processing_files (snd (on_created loop_running project_root ev s))"
        by (simp add: on_created_def supported_extensions_def Let_def)
      with eq assms(3) show False by simp
    qed
  next
    assume "lower (suffix (fpath f)) \<notin> {''.xlsx'', ''.xls'', ''.csv''}"
    with assms(1-3) show "on_created loop_running project_root ev s
            = (None, s\<lparr>world := log INFO
                 (''Arquivo ignorado (formato nao suportado): '' @ name (fpath f)) (world s)\<rparr>)"
      by (simp add: on_created_def supported_extensions_def Let_def)
  qed
  show "tasks (snd (on_created True project_root ev s))
            = tasks s @ [(fpath f, detect_cluster project_root (fpath f))]
            \<longleftrightarrow> lower (suffix (fpath f)) \<in> {''.xlsx'', ''.xls'', ''.csv''}"
    using assms(1-3) by (simp add: on_created_def supported_extensions_def Let_def)
  show "scan_dir L project_root cluster entries acc
            = fold (\<lambda>(f, is_file) (w, processed_count).
                     case process_file L project_root f cluster
                            (log INFO (''Processando existente: '' @ name (fpath f)) w) of
                       (None, w') \<Rightarrow> (w', processed_count + 1)
                     | (Some e, w') \<Rightarrow>
                         (log ERROR (''Erro ao processar '' @ name (fpath f)) w', processed_count))
                (filter (\<lambda>(f, is_file). is_file
                          \<and> lower (suffix (fpath f)) \<in> {''.xlsx'', ''.xls'', ''.csv''}) entries)
                acc"
    by (rule scan_dir_fold)
  show "scan_existing_files L project_root (\<lambda>c. if c = cluster then Some [(f, True)] else None) w
            = (log INFO ''Scan concluido!''
                 (log INFO ''Escaneando arquivos existentes na Landing Zone...'' w), 0)
            \<longleftrightarrow> lower (suffix (fpath f)) \<notin> {''.xlsx'', ''.xls'', ''.csv''}"
  proof -
    let ?w0 = "log INFO ''Escaneando arquivos existentes na Landing Zone...'' w"
    have d: "distinct clusters"
      by (simp add: clusters_def)
    have sc: "scan_existing_files L project_root (\<lambda>c. if c = cluster then Some [(f, True)] else None) w
        = (log INFO ''Scan concluido!'' (fst (scan_dir L project_root cluster [(f, True)] (?w0, 0))),
           snd (scan_dir L project_root cluster [(f, True)] (?w0, 0)))"
      unfolding scan_existing_files_def scan_clusters_one [OF assms(4) d]
      by (simp add: Let_def split: prod.splits)
    show ?thesis
    proof (cases "lower (suffix (fpath f)) \<in> {''.xlsx'', ''.xls'', ''.csv''}")
      case False
      then have "scan_dir L project_root cluster [(f, True)] (?w0, 0) = (?w0, 0)"
        by (intro scan_dir_rejects) (simp only: simp_thms)
      with False sc show ?thesis by (simp only: fst_conv snd_conv simp_thms)
    next
      case True
      then have "length (logs ?w0) + 2
          \<le> length (logs (fst (scan_dir L project_root cluster [(f, True)] (?w0, 0))))"
        by (intro scan_dir_accepts) (simp only: simp_thms)
      then have "length (logs (log INFO ''Scan concluido!''
            (fst (scan_dir L project_root cluster [(f, True)] (?w0, 0)))))
          \<noteq> length (logs (log INFO ''Scan concluido!'' ?w0))"
        by (simp add: log_def)
      then have "log INFO ''Scan concluido!''
            (fst (scan_dir L project_root cluster [(f, True)] (?w0, 0)))
          \<noteq> log INFO ''Scan concluido!'' ?w0"
        by metis
      with True sc show ?thesis by (simp only: prod.inject simp_thms)
    qed
  qed
  show "(\<exists>res w'. read_file f w = (Inr res, w'))
            \<longleftrightarrow> lower (suffix (fpath f)) \<in> {''.xlsx'', ''.xls'', ''.csv''}"
    using supported_formats_keys [of "lower (suffix (fpath f))"]
    by (auto simp: read_file_def split: option.splits sum.splits)
  show "read_file f w = (Inl (ValueError (''Formato nao suportado: '' @ lower (suffix (fpath f)))), w)
            \<longleftrightarrow> lower (suffix (fpath f)) \<notin> {''.xlsx'', ''.xls'', ''.csv''}"
    using supported_formats_keys [of "lower (suffix (fpath f))"]
    by (auto simp: read_file_def split: option.splits sum.splits)
qed

theorem extension_matching_witness:
  "lower (suffix (fpath semicolon_csv)) = ''.csv''
   \<and> fpath semicolon_csv
       \<in> processing_files (snd (on_created False example_root created_data_csv (started empty_world)))
   \<and> tasks (snd (on_created True example_root created_data_csv (started empty_world)))
       = [(fpath semicolon_csv, detect_cluster example_root (fpath semicolon_csv))]
   \<and> scan_dir sample_lib example_root ''diabetes'' [(notes_txt, True), (semicolon_csv, False)]
         (empty_world, 0)
       = (empty_world, 0)
   \<and> scan_existing_files sample_lib example_root
         (\<lambda>c. if c = ''diabetes'' then Some [(semicolon_csv, True)] else None) empty_world
       \<noteq> (log INFO ''Scan concluido!''
            (log INFO ''Escaneando arquivos existentes na Landing Zone...'' empty_world), 0)
   \<and> fst (read_file semicolon_csv empty_world) \<noteq> Inl (ValueError ''Formato nao suportado: .csv'')"
proof -
  have 1: "lower (suffix (fpath semicolon_csv)) = ''.csv''"
    by code_simp
  have 2: "lower (suffix (fpath notes_txt)) = ''.txt''"
    by code_simp
  have a: "\<not> is_directory created_data_csv" "src_path created_data_csv = fpath semicolon_csv"
    "fpath semicolon_csv \<notin> processing_files (started empty_world)"
    "''diabetes'' \<in> set clusters"
    by (simp_all add: created_data_csv_def started_def clusters_def)
  have 3: "tasks (started empty_world) = []"
    by (simp add: started_def)
  have 4: "filter (\<lambda>(f, is_file). is_file
        \<and> lower (suffix (fpath f)) \<in> {''.xlsx'', ''.xls'', ''.csv''})
        [(notes_txt, True), (semicolon_csv, False)] = []"
    by (simp add: 2)
  note w = extension_matching [OF a, where loop_running = False and project_root = example_root
      and L = sample_lib and entries = "[(notes_txt, True), (semicolon_csv, False)]"
      and acc = "(empty_world, 0)" and w = empty_world]
  from w have "fpath semicolon_csv
       \<in> processing_files (snd (on_created False example_root created_data_csv (started empty_world)))"
    by (simp add: 1)
  moreover from w
  have "tasks (snd (on_created True example_root created_data_csv (started empty_world)))
       = [(fpath semicolon_csv, detect_cluster example_root (fpath semicolon_csv))]"
    by (simp add: 1 3)
  moreover from w
  have "scan_dir sample_lib example_root ''diabetes'' [(notes_txt, True), (semicolon_csv, False)]
         (empty_world, 0) = (empty_world, 0)"
    unfolding 4 by simp
  moreover from w
  have "scan_existing_files sample_lib example_root
         (\<lambda>c. if c = ''diabetes'' then Some [(semicolon_csv, True)] else None) empty_world
       \<noteq> (log INFO ''Scan concluido!''
            (log INFO ''Escaneando arquivos existentes na Landing Zone...'' empty_world), 0)"
    by (simp add: 1)
  moreover from w
  have "fst (read_file semicolon_csv empty_world) \<noteq> Inl (ValueError ''Formato nao suportado: .csv'')"
    by (auto simp: 1)
  ultimately show ?thesis
    using 1 by blast
qed

section \<open>Properties of the watcher\<close>

text \<open>
  C2 fails in the code.  The observer calls \<^verbatim>\<open>on_created\<close> from its own thread, which
  runs no event loop.  For the create event of \<^verbatim>\<open>DATA.CSV\<close> on a started watcher the
  handler puts the path in \<^verbatim>\<open>processing_files\<close>, then \<^verbatim>\<open>asyncio.create_task\<close> raises
  \<^verbatim>\<open>RuntimeError\<close>: no task exists, so nothing will ever remove the path.  The path
  stays in the set; no task can run for it; and a later create event for it, even one
  handled on a thread with an event loop, returns at the membership test and schedules
  nothing.
\<close>

theorem on_created_leaves_stale_marker:
  "on_created False example_root created_data_csv (started empty_world)
     = (Some RuntimeError,
        \<lparr>observer_alive = True, processing_files = {fpath semicolon_csv}, tasks = [],
         world = \<lparr>logs = [(INFO, ''Novo arquivo detectado: DATA.CSV'')], fs = (\<lambda>p. None)\<rparr>\<rparr>)
   \<and> step sample_lib example_root
        (snd (on_created False example_root created_data_csv (started empty_world)))
        (RunTask semicolon_csv)
     = snd (on_created False example_root created_data_csv (started empty_world))
   \<and> on_created True example_root created_data_csv
        (snd (on_created False example_root created_data_csv (started empty_world)))
     = (None, snd (on_created False example_root created_data_csv (started empty_world)))
   \<and> on_created False example_root created_data_csv
        (snd (on_created False example_root created_data_csv (started empty_world)))
     = (None, snd (on_created False example_root created_data_csv (started empty_world)))"
proof -
  have ext: "lower (suffix (fpath semicolon_csv)) = ''.csv''"
    by code_simp
  have nm: "name (fpath semicolon_csv) = ''DATA.CSV''"
    by code_simp
  have 1: "on_created False example_root created_data_csv (started empty_world)
     = (Some RuntimeError,
        \<lparr>observer_alive = True, processing_files = {fpath semicolon_csv}, tasks = [],
         world = \<lparr>logs = [(INFO, ''Novo arquivo detectado: DATA.CSV'')], fs = (\<lambda>p. None)\<rparr>\<rparr>)"
    by (simp add: started_def on_created_def created_data_csv_def ext nm empty_world_def
        log_def supported_extensions_def Let_def)
  have 2: "on_created b example_root created_data_csv
        \<lparr>observer_alive = True, processing_files = {fpath semicolon_csv}, tasks = [],
         world = \<lparr>logs = [(INFO, ''Novo arquivo detectado: DATA.CSV'')], fs = (\<lambda>p. None)\<rparr>\<rparr>
      = (None, \<lparr>observer_alive = True, processing_files = {fpath semicolon_csv}, tasks = [],
         world = \<lparr>logs = [(INFO, ''Novo arquivo detectado: DATA.CSV'')], fs = (\<lambda>p. None)\<rparr>\<rparr>)"
    for b
    by (simp add: on_created_def created_data_csv_def ext supported_extensions_def Let_def)
  show ?thesis
    unfolding 1 snd_conv 2 by simp
qed

section \<open>Shutdown\<close>

text \<open>
  C8 as stated fails: with a task in flight, \<^verbatim>\<open>stop\<close> returns while the path is still
  in \<^verbatim>\<open>processing_files\<close> and its task has not run.  The same holds for the path that
  a handler called outside an event loop has left in the set.
\<close>

theorem stop_returns_with_task_in_flight:
  "processing_files (stop (snd (on_created True example_root created_data_csv (started empty_world))))
     = {fpath semicolon_csv}
   \<and> tasks (stop (snd (on_created True example_root created_data_csv (started empty_world))))
     = [(fpath semicolon_csv, ''diabetes'')]
   \<and> processing_files (stop (snd (on_created False example_root created_data_csv (started empty_world))))
     = {fpath semicolon_csv}"
proof -
  have ext: "lower (suffix (fpath semicolon_csv)) = ''.csv''"
    by code_simp
  have cl: "detect_cluster example_root (fpath semicolon_csv) = ''diabetes''"
    by code_simp
  show ?thesis
    by (simp add: stop_def started_def on_created_def created_data_csv_def ext cl
        supported_extensions_def Let_def)
qed

text \<open>
  C8, as the code has it.  \<^verbatim>\<open>stop\<close> ends the observation: the observer is stopped and
  joined, and no create event is handled afterwards.  It waits for no task and cancels
  none: the set \<^verbatim>\<open>processing_files\<close>, the tasks in flight and the file system are what
  they were when it was called, so the set is empty when \<^verbatim>\<open>stop\<close> returns only if it
  was empty before.
\<close>

theorem stop_only_ends_observation:
  "\<not> observer_alive (stop s)
   \<and> step L r (stop s) (Created loop_running ev) = stop s
   \<and> processing_files (stop s) = processing_files s
   \<and> tasks (stop s) = tasks s
   \<and> fs (world (stop s)) = fs (world s)
   \<and> (processing_files (stop s) = {} \<longleftrightarrow> processing_files s = {})"
  by (simp add: stop_def log_def)

end
